theory Spec2Isabelle
  imports Complex_Main
begin

section \<open>The affiliate document (models/Affiliate.js)\<close>

text \<open>
  The embedding follows the Mongoose schema of \<^verbatim>\<open>models/Affiliate.js\<close>. An ObjectId is a
  natural number and a Date is a number of milliseconds. The value of a JavaScript
  Number is a real. The methods are written first in exact arithmetic, which is what the
  statements about one call need, and then with the rounding of every operation to a
  double, for the statement that relates the running totals to a sum over the
  commission list. An enum of the schema is a datatype. A sub-document array is
  a list in insertion order, every element carrying its \<^verbatim>\<open>_id\<close>.

  Fields of the schema that none of the modelled methods reads or writes (contactInfo,
  paymentInfo, marketingAssets, adminNotes, tags, the onboarding fields, settings) are
  left out of the record.
\<close>

type_synonym oid = nat
type_synonym date = nat

datatype commission_status = Pending | Approved | Paid | Cancelled

datatype referral_status = Signup | Converted | Churned

record stats =
  totalReferrals :: real
  successfulReferrals :: real
  totalCommissionEarned :: real
  totalCommissionPaid :: real
  pendingCommission :: real
  conversionRate :: real
  averageOrderValue :: real
  lifetimeValue :: real

record referral =
  r_id :: oid
  r_customerId :: "oid option"
  r_customerEmail :: "string option"
  r_signupDate :: date
  r_firstPurchaseDate :: "date option"
  r_totalSpent :: real
  r_commissionEarned :: real
  r_status :: referral_status

record commission =
  c_id :: oid
  c_orderId :: "string option"
  c_customerId :: "oid option"
  c_orderAmount :: real
  c_commissionAmount :: real
  c_commissionRate :: real
  c_status :: commission_status
  c_approvedBy :: "oid option"
  c_approvedAt :: "date option"
  c_paidAt :: "date option"
  c_paymentMethod :: "string option"
  c_paymentReference :: "string option"
  c_createdAt :: date

record affiliate =
  a_id :: oid
  a_name :: string
  a_email :: string
  affiliateId :: string
  referralCode :: string
  a_status :: string
  a_tier :: string
  commissionRate :: real
  a_stats :: stats
  referrals :: "referral list"
  commissions :: "commission list"
  lastActivityAt :: "date option"

text \<open>
  What a method call reads from outside the document: the clock (\<^verbatim>\<open>new Date()\<close> in the
  method body, and again in the pre-save hook), the \<^verbatim>\<open>_id\<close> Mongoose gives a pushed
  sub-document, and the two strings \<^verbatim>\<open>Math.random().toString(36)\<close> of the pre-save hook.
\<close>

record env =
  now :: date
  savedAt :: date
  newId :: oid
  random1 :: string
  random2 :: string

record customerData =
  cd_customerId :: "oid option"
  cd_email :: "string option"

record orderData =
  od_orderId :: "string option"
  od_amount :: real

record paymentData =
  pd_method :: "string option"
  pd_reference :: "string option"

subsection \<open>Sub-document arrays\<close>

text \<open>
  \<^verbatim>\<open>array.id(x)\<close> returns the first sub-document whose \<^verbatim>\<open>_id\<close> is \<^verbatim>\<open>x\<close>, or null. The
  methods then assign to fields of the sub-document they were handed, which changes that
  element of the array in place: \<open>update_id\<close> is this assignment.
\<close>

definition by_id :: "('a \<Rightarrow> oid) \<Rightarrow> 'a list \<Rightarrow> oid \<Rightarrow> 'a option" where
  "by_id key xs i = List.find (\<lambda>x. key x = i) xs"

fun update_id :: "('a \<Rightarrow> oid) \<Rightarrow> oid \<Rightarrow> ('a \<Rightarrow> 'a) \<Rightarrow> 'a list \<Rightarrow> 'a list" where
  "update_id key i f [] = []"
| "update_id key i f (x # xs) =
     (if key x = i then f x # xs else x # update_id key i f xs)"

subsection \<open>The pre-save hook and save\<close>

text \<open>
  \<^verbatim>\<open>AffiliateSchema.pre('save', ...)\<close>: an empty \<^verbatim>\<open>affiliateId\<close> becomes
  \<^verbatim>\<open>AFF${Date.now()}${random}\<close>, an empty \<^verbatim>\<open>referralCode\<close> becomes the first four
  non-blank characters of the name followed by a random part, both in upper case, and
  \<^verbatim>\<open>lastActivityAt\<close> is set to the time of the save, on every save. Names are ASCII in
  this model.
\<close>

definition digit_char :: "nat \<Rightarrow> char" where
  "digit_char d = char_of (48 + d)"

function decimal :: "nat \<Rightarrow> string" where
  "decimal n = (if n < 10 then [digit_char n] else decimal (n div 10) @ [digit_char (n mod 10)])"
  by pat_completeness auto
termination
  by (relation "measure id") auto

definition toUpperCase_char :: "char \<Rightarrow> char" where
  "toUpperCase_char c =
     (let k = (of_char c :: nat) in if 97 \<le> k \<and> k \<le> 122 then char_of (k - 32) else c)"

definition toUpperCase :: "string \<Rightarrow> string" where
  "toUpperCase s = map toUpperCase_char s"

definition is_whitespace :: "char \<Rightarrow> bool" where
  "is_whitespace c = (let k = (of_char c :: nat) in k = 32 \<or> (9 \<le> k \<and> k \<le> 13))"

definition substr :: "string \<Rightarrow> nat \<Rightarrow> nat \<Rightarrow> string" where
  "substr s start len = take len (drop start s)"

definition random_part :: "string \<Rightarrow> string" where
  "random_part r = toUpperCase (substr r 2 4)"

definition pre_save :: "env \<Rightarrow> affiliate \<Rightarrow> affiliate" where
  "pre_save e a =
     (let a1 = (if affiliateId a = []
                then a\<lparr>affiliateId := ''AFF'' @ decimal (savedAt e) @ random_part (random1 e)\<rparr>
                else a);
          a2 = (if referralCode a1 = []
                then a1\<lparr>referralCode :=
                       toUpperCase (substr (filter (\<lambda>c. \<not> is_whitespace c) (a_name a1)) 0 4)
                       @ random_part (random2 e)\<rparr>
                else a1)
      in a2\<lparr>lastActivityAt := Some (savedAt e)\<rparr>)"

text \<open>
  \<^verbatim>\<open>this.save()\<close> runs the hook and writes the document. The methods below return the
  document as it is saved. Whether Mongoose accepts the write (schema validators, the
  storage itself) is decided outside of this file of the repository; the route handlers
  take that decision as a parameter.
\<close>

definition save :: "env \<Rightarrow> affiliate \<Rightarrow> affiliate" where
  "save e a = pre_save e a"

subsection \<open>Virtuals\<close>

text \<open>
  A JavaScript division does not fail on a zero divisor: it evaluates to \<^verbatim>\<open>Infinity\<close>,
  \<^verbatim>\<open>-Infinity\<close> or \<^verbatim>\<open>NaN\<close>, and these values go through a multiplication. The value of
  an arithmetic expression is therefore a \<open>js_number\<close>: a number, or one of the three.
  Signed zeros are not told apart, the counters of \<^verbatim>\<open>stats\<close> hold numbers, and an
  overflow of a quotient or a product is not modelled.
\<close>

datatype js_number = Num real | PosInfinity | NegInfinity | NaN

definition js_divide :: "real \<Rightarrow> real \<Rightarrow> js_number" where
  "js_divide x y =
     (if y = 0 then (if x = 0 then NaN else if 0 < x then PosInfinity else NegInfinity)
      else Num (x / y))"

definition js_times :: "js_number \<Rightarrow> real \<Rightarrow> js_number" where
  "js_times n y =
     (case n of
        Num x \<Rightarrow> Num (x * y)
      | PosInfinity \<Rightarrow> (if y = 0 then NaN else if 0 < y then PosInfinity else NegInfinity)
      | NegInfinity \<Rightarrow> (if y = 0 then NaN else if 0 < y then NegInfinity else PosInfinity)
      | NaN \<Rightarrow> NaN)"

definition calculatedConversionRate :: "affiliate \<Rightarrow> js_number" where
  "calculatedConversionRate a =
     (if totalReferrals (a_stats a) = 0 then Num 0
      else js_times (js_divide (successfulReferrals (a_stats a)) (totalReferrals (a_stats a))) 100)"

text \<open>
  \<open>number_value\<close> reads the number an expression has evaluated to, for a counter to
  store it; it says nothing about \<^verbatim>\<open>NaN\<close> and the infinities.
\<close>

fun number_value :: "js_number \<Rightarrow> real" where
  "number_value (Num x) = x"

subsection \<open>Methods\<close>

definition addReferral :: "env \<Rightarrow> affiliate \<Rightarrow> customerData \<Rightarrow> affiliate" where
  "addReferral e a cd =
     (let a1 = a\<lparr>referrals := referrals a @
                 [\<lparr>r_id = newId e, r_customerId = cd_customerId cd,
                   r_customerEmail = cd_email cd, r_signupDate = now e,
                   r_firstPurchaseDate = None, r_totalSpent = 0, r_commissionEarned = 0,
                   r_status = Signup\<rparr>]\<rparr>;
          a2 = a1\<lparr>a_stats := (a_stats a1)\<lparr>totalReferrals := totalReferrals (a_stats a1) + 1\<rparr>\<rparr>
      in save e a2)"

definition new_commission :: "env \<Rightarrow> affiliate \<Rightarrow> referral \<Rightarrow> orderData \<Rightarrow> real \<Rightarrow> commission" where
  "new_commission e a r od commissionAmount =
     \<lparr>c_id = newId e, c_orderId = od_orderId od, c_customerId = r_customerId r,
      c_orderAmount = od_amount od, c_commissionAmount = commissionAmount,
      c_commissionRate = commissionRate a, c_status = Pending,
      c_approvedBy = None, c_approvedAt = None, c_paidAt = None,
      c_paymentMethod = None, c_paymentReference = None, c_createdAt = now e\<rparr>"

definition recordConversion :: "env \<Rightarrow> affiliate \<Rightarrow> oid \<Rightarrow> orderData \<Rightarrow> affiliate" where
  "recordConversion e a referralId od =
     (case by_id r_id (referrals a) referralId of
        None \<Rightarrow> save e a
      | Some r \<Rightarrow>
          (let commissionAmount = od_amount od * commissionRate a;
               a1 = a\<lparr>referrals := update_id r_id referralId
                      (\<lambda>r. r\<lparr>r_status := Converted, r_firstPurchaseDate := Some (now e),
                              r_totalSpent := od_amount od,
                              r_commissionEarned := commissionAmount\<rparr>) (referrals a)\<rparr>;
               a2 = a1\<lparr>commissions := commissions a1 @ [new_commission e a1 r od commissionAmount]\<rparr>;
               s = a_stats a2;
               a3 = a2\<lparr>a_stats := s\<lparr>successfulReferrals := successfulReferrals s + 1,
                                      totalCommissionEarned := totalCommissionEarned s + commissionAmount,
                                      pendingCommission := pendingCommission s + commissionAmount\<rparr>\<rparr>;
               a4 = a3\<lparr>a_stats := (a_stats a3)\<lparr>conversionRate :=
                      number_value (calculatedConversionRate a3)\<rparr>\<rparr>
           in save e a4))"

definition approveCommission :: "env \<Rightarrow> affiliate \<Rightarrow> oid \<Rightarrow> oid \<Rightarrow> affiliate" where
  "approveCommission e a commissionId adminId =
     (case by_id c_id (commissions a) commissionId of
        None \<Rightarrow> save e a
      | Some c \<Rightarrow>
          if c_status c = Pending
          then save e (a\<lparr>commissions := update_id c_id commissionId
                  (\<lambda>c. c\<lparr>c_status := Approved, c_approvedBy := Some adminId,
                          c_approvedAt := Some (now e)\<rparr>) (commissions a)\<rparr>)
          else save e a)"

definition payCommission :: "env \<Rightarrow> affiliate \<Rightarrow> oid \<Rightarrow> paymentData \<Rightarrow> affiliate" where
  "payCommission e a commissionId pd =
     (case by_id c_id (commissions a) commissionId of
        None \<Rightarrow> save e a
      | Some c \<Rightarrow>
          if c_status c = Approved
          then (let a1 = a\<lparr>commissions := update_id c_id commissionId
                         (\<lambda>c. c\<lparr>c_status := Paid, c_paidAt := Some (now e),
                                 c_paymentMethod := pd_method pd,
                                 c_paymentReference := pd_reference pd\<rparr>) (commissions a)\<rparr>;
                    s = a_stats a1;
                    a2 = a1\<lparr>a_stats := s\<lparr>totalCommissionPaid := totalCommissionPaid s + c_commissionAmount c,
                                           pendingCommission := pendingCommission s - c_commissionAmount c\<rparr>\<rparr>
                in save e a2)
          else save e a)"

subsection \<open>Sequences of operations and the outstanding amount\<close>

text \<open>
  The amount still owed to an affiliate, read off the commission list: the sum of the
  \<^verbatim>\<open>commissionAmount\<close> of the commissions that are pending or approved.
\<close>

definition outstanding :: "commission list \<Rightarrow> real" where
  "outstanding cs =
     sum_list (map c_commissionAmount
       (filter (\<lambda>c. c_status c = Pending \<or> c_status c = Approved) cs))"

text \<open>
  A history of an affiliate document is a list of method calls, each with what it reads
  from its environment.
\<close>

datatype operation =
    AddReferral customerData
  | RecordConversion oid orderData
  | ApproveCommission oid oid
  | PayCommission oid paymentData

definition pay_repeatedly :: "affiliate \<Rightarrow> oid \<Rightarrow> (env \<times> paymentData) list \<Rightarrow> affiliate" where
  "pay_repeatedly a commissionId calls =
     foldl (\<lambda>a (e, pd). payCommission e a commissionId pd) a calls"

text \<open>The schema's defaults for \<^verbatim>\<open>stats\<close>: every counter is 0.\<close>

definition zero_stats :: stats where
  "zero_stats = \<lparr>totalReferrals = 0, successfulReferrals = 0, totalCommissionEarned = 0,
     totalCommissionPaid = 0, pendingCommission = 0, conversionRate = 0,
     averageOrderValue = 0, lifetimeValue = 0\<rparr>"

section \<open>The methods in double precision\<close>

text \<open>
  A JavaScript Number is an IEEE-754 double: every arithmetic operation computes the
  exact result and rounds it to the nearest double, ties to the even significand.
  \<open>round64\<close> is this rounding for results of magnitude below \<open>2 ^ 1024\<close> (an overflow to
  \<^verbatim>\<open>Infinity\<close> is not modelled): a double in the binade \<open>2 ^ e \<le> \<bar>x\<bar> < 2 ^ (e + 1)\<close> is a
  multiple of \<open>2 ^ (e - 52)\<close>, and below \<open>2 ^ - 1022\<close> of \<open>2 ^ - 1074\<close>.

  What a single method call stores is the result of one operation, whatever the
  rounding, and the methods above are written in exact arithmetic. An equality between
  sums taken in different orders depends on the rounding. For it, the methods that
  compute are given again with the rounding \<open>rnd\<close> of each operation as a parameter:
  \<open>round64\<close> for the code as it runs, the identity for exact arithmetic, where they are
  the methods above.
\<close>

definition round_half_even :: "real \<Rightarrow> int" where
  "round_half_even x =
     (let f = \<lfloor>x\<rfloor>; d = x - of_int f
      in if d < 1/2 then f else if 1/2 < d then f + 1 else if even f then f else f + 1)"

text \<open>
  The exponent \<open>e\<close> with \<open>2 ^ e \<le> x < 2 ^ (e + 1)\<close> of a positive \<open>x\<close>, found by halving or
  doubling at most \<open>n\<close> times.
\<close>

fun binade :: "nat \<Rightarrow> real \<Rightarrow> int" where
  "binade 0 x = 0"
| "binade (Suc n) x =
     (if 2 \<le> x then binade n (x / 2) + 1 else if x < 1 then binade n (x * 2) - 1 else 0)"

definition ulp :: "int \<Rightarrow> real" where
  "ulp e = (if 52 \<le> e then 2 ^ nat (e - 52) else 1 / 2 ^ nat (52 - e))"

definition round64 :: "real \<Rightarrow> real" where
  "round64 x =
     (if x = 0 then 0
      else (let q = ulp (max (binade 1100 \<bar>x\<bar>) (- 1022))
            in of_int (round_half_even (x / q)) * q))"

definition round_number :: "(real \<Rightarrow> real) \<Rightarrow> js_number \<Rightarrow> js_number" where
  "round_number rnd n = (case n of Num x \<Rightarrow> Num (rnd x) | other \<Rightarrow> other)"

definition calculatedConversionRate_fp :: "(real \<Rightarrow> real) \<Rightarrow> affiliate \<Rightarrow> js_number" where
  "calculatedConversionRate_fp rnd a =
     (if totalReferrals (a_stats a) = 0 then Num 0
      else round_number rnd (js_times
             (round_number rnd
                (js_divide (successfulReferrals (a_stats a)) (totalReferrals (a_stats a))))
             100))"

definition pendingPayout :: "(real \<Rightarrow> real) \<Rightarrow> affiliate \<Rightarrow> real" where
  "pendingPayout rnd a =
     rnd (totalCommissionEarned (a_stats a) - totalCommissionPaid (a_stats a))"

definition addReferral_fp :: "(real \<Rightarrow> real) \<Rightarrow> env \<Rightarrow> affiliate \<Rightarrow> customerData \<Rightarrow> affiliate" where
  "addReferral_fp rnd e a cd =
     (let a1 = a\<lparr>referrals := referrals a @
                 [\<lparr>r_id = newId e, r_customerId = cd_customerId cd,
                   r_customerEmail = cd_email cd, r_signupDate = now e,
                   r_firstPurchaseDate = None, r_totalSpent = 0, r_commissionEarned = 0,
                   r_status = Signup\<rparr>]\<rparr>;
          a2 = a1\<lparr>a_stats := (a_stats a1)\<lparr>totalReferrals :=
                  rnd (totalReferrals (a_stats a1) + 1)\<rparr>\<rparr>
      in save e a2)"

definition recordConversion_fp ::
  "(real \<Rightarrow> real) \<Rightarrow> env \<Rightarrow> affiliate \<Rightarrow> oid \<Rightarrow> orderData \<Rightarrow> affiliate" where
  "recordConversion_fp rnd e a referralId od =
     (case by_id r_id (referrals a) referralId of
        None \<Rightarrow> save e a
      | Some r \<Rightarrow>
          (let commissionAmount = rnd (od_amount od * commissionRate a);
               a1 = a\<lparr>referrals := update_id r_id referralId
                      (\<lambda>r. r\<lparr>r_status := Converted, r_firstPurchaseDate := Some (now e),
                              r_totalSpent := od_amount od,
                              r_commissionEarned := commissionAmount\<rparr>) (referrals a)\<rparr>;
               a2 = a1\<lparr>commissions := commissions a1 @ [new_commission e a1 r od commissionAmount]\<rparr>;
               s = a_stats a2;
               a3 = a2\<lparr>a_stats := s\<lparr>successfulReferrals := rnd (successfulReferrals s + 1),
                                      totalCommissionEarned := rnd (totalCommissionEarned s + commissionAmount),
                                      pendingCommission := rnd (pendingCommission s + commissionAmount)\<rparr>\<rparr>;
               a4 = a3\<lparr>a_stats := (a_stats a3)\<lparr>conversionRate :=
                      number_value (calculatedConversionRate_fp rnd a3)\<rparr>\<rparr>
           in save e a4))"

definition payCommission_fp ::
  "(real \<Rightarrow> real) \<Rightarrow> env \<Rightarrow> affiliate \<Rightarrow> oid \<Rightarrow> paymentData \<Rightarrow> affiliate" where
  "payCommission_fp rnd e a commissionId pd =
     (case by_id c_id (commissions a) commissionId of
        None \<Rightarrow> save e a
      | Some c \<Rightarrow>
          if c_status c = Approved
          then (let a1 = a\<lparr>commissions := update_id c_id commissionId
                         (\<lambda>c. c\<lparr>c_status := Paid, c_paidAt := Some (now e),
                                 c_paymentMethod := pd_method pd,
                                 c_paymentReference := pd_reference pd\<rparr>) (commissions a)\<rparr>;
                    s = a_stats a1;
                    a2 = a1\<lparr>a_stats := s\<lparr>totalCommissionPaid :=
                                             rnd (totalCommissionPaid s + c_commissionAmount c),
                                           pendingCommission :=
                                             rnd (pendingCommission s - c_commissionAmount c)\<rparr>\<rparr>
                in save e a2)
          else save e a)"

fun apply_operation :: "(real \<Rightarrow> real) \<Rightarrow> affiliate \<Rightarrow> env \<times> operation \<Rightarrow> affiliate" where
  "apply_operation rnd a (e, AddReferral cd) = addReferral_fp rnd e a cd"
| "apply_operation rnd a (e, RecordConversion referralId od) =
     recordConversion_fp rnd e a referralId od"
| "apply_operation rnd a (e, ApproveCommission commissionId adminId) =
     approveCommission e a commissionId adminId"
| "apply_operation rnd a (e, PayCommission commissionId pd) =
     payCommission_fp rnd e a commissionId pd"

definition run :: "(real \<Rightarrow> real) \<Rightarrow> affiliate \<Rightarrow> (env \<times> operation) list \<Rightarrow> affiliate" where
  "run rnd a ops = foldl (apply_operation rnd) a ops"

text \<open>
  A call updates the two running totals without rounding when the sum it stores is the
  exact sum: \<^verbatim>\<open>totalCommissionEarned += commissionAmount\<close> in \<^verbatim>\<open>recordConversion\<close>,
  \<^verbatim>\<open>totalCommissionPaid += commissionAmount\<close> in \<^verbatim>\<open>payCommission\<close>. The other operations
  of the call may round.
\<close>

fun exact_step :: "(real \<Rightarrow> real) \<Rightarrow> affiliate \<Rightarrow> env \<times> operation \<Rightarrow> bool" where
  "exact_step rnd a (e, RecordConversion referralId od) =
     (case by_id r_id (referrals a) referralId of
        None \<Rightarrow> True
      | Some r \<Rightarrow>
          rnd (totalCommissionEarned (a_stats a) + rnd (od_amount od * commissionRate a)) =
            totalCommissionEarned (a_stats a) + rnd (od_amount od * commissionRate a))"
| "exact_step rnd a (e, PayCommission commissionId pd) =
     (case by_id c_id (commissions a) commissionId of
        None \<Rightarrow> True
      | Some c \<Rightarrow>
          c_status c \<noteq> Approved \<or>
          rnd (totalCommissionPaid (a_stats a) + c_commissionAmount c) =
            totalCommissionPaid (a_stats a) + c_commissionAmount c)"
| "exact_step rnd a (e, AddReferral cd) = True"
| "exact_step rnd a (e, ApproveCommission commissionId adminId) = True"

fun exact_totals :: "(real \<Rightarrow> real) \<Rightarrow> affiliate \<Rightarrow> (env \<times> operation) list \<Rightarrow> bool" where
  "exact_totals rnd a [] = True"
| "exact_totals rnd a (x # xs) =
     (exact_step rnd a x \<and> exact_totals rnd (apply_operation rnd a x) xs)"

definition balanced :: "affiliate \<Rightarrow> bool" where
  "balanced a \<longleftrightarrow>
     totalCommissionEarned (a_stats a) - totalCommissionPaid (a_stats a) = outstanding (commissions a)"

section \<open>The affiliate routes (routes/affiliates.js)\<close>

text \<open>
  A handler is a function from the collection and the request to the JSON response and
  the collection afterwards. The handlers are modelled behind their middleware
  (\<^verbatim>\<open>authenticateToken\<close>, \<^verbatim>\<open>requireAdminPermission\<close> of \<^verbatim>\<open>middleware/auth\<close>): a request
  is one that the middleware has let through. The database answers: \<^verbatim>\<open>findById\<close> is a
  lookup by \<^verbatim>\<open>_id\<close>, and connection failures are not modelled. What Mongoose makes of a
  write (schema validators, unique indexes) is the parameter \<open>write_error\<close>, given the
  collection and the document: the message of the error \<^verbatim>\<open>save()\<close> rejects with, or
  \<open>None\<close> when the document is written. A rejected save reaches the handler's
  \<^verbatim>\<open>catch\<close>, which answers 500.

  A response is the HTTP status and the keys of the JSON body: \<^verbatim>\<open>success\<close>,
  \<^verbatim>\<open>message\<close>, \<^verbatim>\<open>error\<close>, and the remaining keys as the payload.
\<close>

record 'p response =
  res_status :: nat
  res_success :: "bool option"
  res_message :: "string option"
  res_error :: "string option"
  res_data :: "'p option"

record pay_body =
  paymentMethod :: "string option"
  paymentReference :: "string option"

definition approve_route ::
  "(affiliate list \<Rightarrow> affiliate \<Rightarrow> string option) \<Rightarrow> env \<Rightarrow> affiliate list \<Rightarrow> oid \<Rightarrow> oid \<Rightarrow> oid
     \<Rightarrow> unit response \<times> affiliate list" where
  "approve_route write_error e db reqId commissionId userId =
     (case by_id a_id db reqId of
        None \<Rightarrow>
          (\<lparr>res_status = 404, res_success = Some False,
            res_message = Some ''Affiliate not found'', res_error = None, res_data = None\<rparr>, db)
      | Some a \<Rightarrow>
          (let a' = approveCommission e a commissionId userId in
           case write_error db a' of
             Some err \<Rightarrow>
               (\<lparr>res_status = 500, res_success = Some False,
                 res_message = Some ''Error approving commission'', res_error = Some err,
                 res_data = None\<rparr>, db)
           | None \<Rightarrow>
               (\<lparr>res_status = 200, res_success = Some True,
                 res_message = Some ''Commission approved successfully'', res_error = None,
                 res_data = None\<rparr>, update_id a_id reqId (\<lambda>_. a') db)))"

definition pay_route ::
  "(affiliate list \<Rightarrow> affiliate \<Rightarrow> string option) \<Rightarrow> env \<Rightarrow> affiliate list \<Rightarrow> oid \<Rightarrow> oid \<Rightarrow> pay_body
     \<Rightarrow> unit response \<times> affiliate list" where
  "pay_route write_error e db reqId commissionId body =
     (case by_id a_id db reqId of
        None \<Rightarrow>
          (\<lparr>res_status = 404, res_success = Some False,
            res_message = Some ''Affiliate not found'', res_error = None, res_data = None\<rparr>, db)
      | Some a \<Rightarrow>
          (let a' = payCommission e a commissionId
                      \<lparr>pd_method = paymentMethod body, pd_reference = paymentReference body\<rparr> in
           case write_error db a' of
             Some err \<Rightarrow>
               (\<lparr>res_status = 500, res_success = Some False,
                 res_message = Some ''Error processing payment'', res_error = Some err,
                 res_data = None\<rparr>, db)
           | None \<Rightarrow>
               (\<lparr>res_status = 200, res_success = Some True,
                 res_message = Some ''Commission paid successfully'', res_error = None,
                 res_data = None\<rparr>, update_id a_id reqId (\<lambda>_. a') db)))"

section \<open>The user document (models/User.js)\<close>

text \<open>
  \<^verbatim>\<open>role\<close> and \<^verbatim>\<open>status\<close> are strings, as the handlers compare and store them; the
  schema's enums are the lists \<open>user_roles\<close> and \<open>user_statuses\<close>. The sub-documents
  profile, billing, onboarding and security, which the modelled handlers do not touch,
  are left out.
\<close>

record permissions =
  canCreateAdmins :: bool
  canManageCustomers :: bool
  canViewAllData :: bool
  canSetPricing :: bool
  canToggleFeatures :: bool
  canManageStaff :: bool
  canAccessBilling :: bool
  canViewAnalytics :: bool
  canSystemSettings :: bool

record user =
  u_id :: oid
  u_name :: string
  u_email :: string
  u_password :: string
  u_role :: string
  u_position :: string
  u_status :: string
  u_business :: "oid option"
  u_adminPermissions :: permissions
  u_createdAt :: date

definition user_roles :: "string list" where
  "user_roles = [''main_admin'', ''admin'', ''support'', ''customer'', ''client'']"

definition user_statuses :: "string list" where
  "user_statuses = [''active'', ''inactive'', ''suspended'', ''pending'']"

definition no_permissions :: permissions where
  "no_permissions = \<lparr>canCreateAdmins = False, canManageCustomers = False,
     canViewAllData = False, canSetPricing = False, canToggleFeatures = False,
     canManageStaff = False, canAccessBilling = False, canViewAnalytics = False,
     canSystemSettings = False\<rparr>"

text \<open>\<^verbatim>\<open>.select('-password')\<close>: the document as it is sent, without its password.\<close>

definition without_password :: "user \<Rightarrow> user" where
  "without_password u = u\<lparr>u_password := []\<rparr>"

section \<open>PUT /admin/customers/:id/status (routes/admin.js)\<close>

text \<open>
  The body's \<^verbatim>\<open>status\<close> is \<open>None\<close> when the key is absent or is not a string.
  \<^verbatim>\<open>findByIdAndUpdate(id, {status}, {new: true})\<close> sets the field of the document with
  that \<^verbatim>\<open>_id\<close> and returns the updated document, or null when there is none.
\<close>

definition put_customer_status ::
  "user list \<Rightarrow> oid \<Rightarrow> string option \<Rightarrow> user option response \<times> user list" where
  "put_customer_status db reqId status =
     (case status of
        None \<Rightarrow>
          (\<lparr>res_status = 400, res_success = None, res_message = None,
            res_error = Some ''Invalid status'', res_data = None\<rparr>, db)
      | Some s \<Rightarrow>
          if s \<notin> set [''active'', ''inactive'', ''suspended'']
          then (\<lparr>res_status = 400, res_success = None, res_message = None,
                 res_error = Some ''Invalid status'', res_data = None\<rparr>, db)
          else (let db' = update_id u_id reqId (\<lambda>u. u\<lparr>u_status := s\<rparr>) db;
                    customer = map_option without_password (by_id u_id db' reqId)
                in (\<lparr>res_status = 200, res_success = None,
                     res_message = Some (''Customer status updated to '' @ s),
                     res_error = None, res_data = Some customer\<rparr>, db')))"

section \<open>String helpers\<close>

text \<open>\<^verbatim>\<open>toLowerCase\<close> and \<^verbatim>\<open>trim\<close> on ASCII strings.\<close>

definition toLowerCase_char :: "char \<Rightarrow> char" where
  "toLowerCase_char c =
     (let k = (of_char c :: nat) in if 65 \<le> k \<and> k \<le> 90 then char_of (k + 32) else c)"

definition toLowerCase :: "string \<Rightarrow> string" where
  "toLowerCase s = map toLowerCase_char s"

definition trim :: "string \<Rightarrow> string" where
  "trim s = rev (dropWhile is_whitespace (rev (dropWhile is_whitespace s)))"

section \<open>Creating users and affiliates\<close>

text \<open>
  A body field that is absent and one that is the empty string are both the empty
  string here: the handlers test these fields only with \<^verbatim>\<open>!x\<close> and \<^verbatim>\<open>x || default\<close>.

  Mongoose casts the filter of a query by the schema before the query is sent, as it
  casts the fields of a new document: the email of a User filter is lower-cased
  (\<^verbatim>\<open>lowercase: true\<close>), the email of an Affiliate filter is lower-cased and trimmed
  (\<^verbatim>\<open>lowercase: true, trim: true\<close>). \<^verbatim>\<open>findOne({email: x})\<close> is the first document whose
  email is the cast of \<open>x\<close>.
\<close>

record user_env =
  ue_now :: date
  ue_newId :: oid
  ue_hash :: "string \<Rightarrow> string"
  ue_sign :: "oid \<Rightarrow> string \<Rightarrow> string \<Rightarrow> string"

definition findOne_email :: "('d \<Rightarrow> string) \<Rightarrow> 'd list \<Rightarrow> string \<Rightarrow> 'd option" where
  "findOne_email key db email = List.find (\<lambda>d. key d = email) db"

definition cast_user_email :: "string \<Rightarrow> string" where
  "cast_user_email email = toLowerCase email"

definition cast_affiliate_email :: "string \<Rightarrow> string" where
  "cast_affiliate_email email = trim (toLowerCase email)"

text \<open>
  \<^verbatim>\<open>save()\<close> of a new document runs the validators of the schema first (a required
  string must not be empty, an enum field must hold one of its values, a number must be
  within its bounds), then the pre-save hooks, and then inserts; the insert is refused
  when a field with \<^verbatim>\<open>unique: true\<close> repeats a stored value. The error that \<^verbatim>\<open>save()\<close>
  rejects with is kept by the leading words of its message.
\<close>

definition validate_user :: "user \<Rightarrow> bool" where
  "validate_user u \<longleftrightarrow>
     u_name u \<noteq> [] \<and> u_email u \<noteq> [] \<and> u_password u \<noteq> []
     \<and> u_role u \<in> set user_roles \<and> u_status u \<in> set user_statuses"

text \<open>
  \<^verbatim>\<open>new User(data)\<close>: the schema lower-cases the email. The pre-save hook of the User
  schema replaces the password by its bcrypt hash.
\<close>

definition new_User ::
  "user_env \<Rightarrow> string \<Rightarrow> string \<Rightarrow> string \<Rightarrow> string \<Rightarrow> string \<Rightarrow> string \<Rightarrow> oid option
     \<Rightarrow> permissions \<Rightarrow> user" where
  "new_User e name email password role position status business perms =
     \<lparr>u_id = ue_newId e, u_name = name, u_email = cast_user_email email, u_password = password,
      u_role = role, u_position = position, u_status = status, u_business = business,
      u_adminPermissions = perms, u_createdAt = ue_now e\<rparr>"

definition save_new_user :: "user_env \<Rightarrow> user list \<Rightarrow> user \<Rightarrow> string + user" where
  "save_new_user e db u =
     (if \<not> validate_user u then Inl ''User validation failed''
      else (let hashed = u\<lparr>u_password := ue_hash e (u_password u)\<rparr>
            in if list_ex (\<lambda>v. u_email v = u_email hashed) db
               then Inl ''E11000 duplicate key error''
               else Inr hashed))"

subsection \<open>POST /auth/register (routes/auth.js)\<close>

record register_body =
  rb_name :: string
  rb_email :: string
  rb_password :: string
  rb_business :: "oid option"
  rb_position :: string
  rb_role :: string

record auth_payload =
  au_token :: string
  au_name :: string
  au_email :: string
  au_role :: string
  au_status :: string
  au_business :: "oid option"
  au_position :: string

definition register ::
  "user_env \<Rightarrow> user list \<Rightarrow> register_body \<Rightarrow> auth_payload response \<times> user list" where
  "register e db body =
     (case findOne_email u_email db (cast_user_email (rb_email body)) of
        Some existing \<Rightarrow>
          (\<lparr>res_status = 409, res_success = None, res_message = Some ''Email already exists'',
            res_error = None, res_data = None\<rparr>, db)
      | None \<Rightarrow>
          (let newUser = new_User e (rb_name body) (rb_email body) (rb_password body)
                 (if rb_role body = [] then ''Client'' else rb_role body)
                 (if rb_position body = [] then ''Member'' else rb_position body)
                 ''Active'' (rb_business body) no_permissions
           in case save_new_user e db newUser of
                Inl err \<Rightarrow>
                  (\<lparr>res_status = 500, res_success = None,
                    res_message = Some ''Registration failed'', res_error = Some err,
                    res_data = None\<rparr>, db)
              | Inr saved \<Rightarrow>
                  (\<lparr>res_status = 201, res_success = None, res_message = None,
                    res_error = None,
                    res_data = Some \<lparr>au_token = ue_sign e (u_id saved) (u_email saved) (u_role saved),
                      au_name = u_name saved, au_email = u_email saved, au_role = u_role saved,
                      au_status = u_status saved, au_business = u_business saved,
                      au_position = u_position saved\<rparr>\<rparr>, db @ [saved])))"

subsection \<open>POST /users/create-user (routes/users.js)\<close>

record create_user_body =
  cu_name :: string
  cu_email :: string
  cu_password :: string
  cu_role :: string
  cu_department :: string
  cu_adminPermissions :: "permissions option"
  cu_status :: string

definition validRoles :: "string list" where
  "validRoles = [''admin'', ''main_admin'', ''support'', ''customer'', ''client'']"

definition message_response :: "nat \<Rightarrow> string \<Rightarrow> 'p response" where
  "message_response code msg =
     \<lparr>res_status = code, res_success = None, res_message = Some msg, res_error = None,
      res_data = None\<rparr>"

definition create_user ::
  "user_env \<Rightarrow> user list \<Rightarrow> oid \<Rightarrow> create_user_body \<Rightarrow> user response \<times> user list" where
  "create_user e db requesterId body =
     (case by_id u_id db requesterId of
        None \<Rightarrow>
          (message_response 403 ''Only main administrators can create new users.'', db)
      | Some requestingUser \<Rightarrow>
          if u_role requestingUser \<noteq> ''main_admin''
          then (message_response 403 ''Only main administrators can create new users.'', db)
          else if cu_name body = [] \<or> cu_email body = [] \<or> cu_password body = []
                  \<or> cu_role body = []
          then (message_response 400 ''Name, email, password, and role are required.'', db)
          else if toLowerCase (cu_role body) \<notin> set validRoles
          then (message_response 400 ''Invalid role specified.'', db)
          else
            (case findOne_email u_email db (cast_user_email (toLowerCase (cu_email body))) of
               Some existingUser \<Rightarrow>
                 (message_response 409 ''A user with this email already exists.'', db)
             | None \<Rightarrow>
                 (let role = toLowerCase (cu_role body);
                      perms = (case cu_adminPermissions body of
                                 Some p \<Rightarrow> if role = ''admin'' \<or> role = ''support'' then p
                                           else no_permissions
                               | None \<Rightarrow> no_permissions);
                      newUser = new_User e (trim (cu_name body))
                        (trim (toLowerCase (cu_email body))) (cu_password body) role ''Member''
                        (if cu_status body = [] then ''active'' else cu_status body) None perms
                  in case save_new_user e db newUser of
                       Inl err \<Rightarrow>
                         (\<lparr>res_status = 500, res_success = None,
                           res_message = Some ''Error creating user.'', res_error = Some err,
                           res_data = None\<rparr>, db)
                     | Inr saved \<Rightarrow>
                         (\<lparr>res_status = 201, res_success = None,
                           res_message = Some ''User created successfully.'',
                           res_error = None, res_data = Some (without_password saved)\<rparr>,
                          db @ [saved]))))"

subsection \<open>POST /affiliates (routes/affiliates.js)\<close>

text \<open>
  \<^verbatim>\<open>new Affiliate(data)\<close>: the schema trims the name, lower-cases and trims the email and
  fills in the defaults; \<^verbatim>\<open>affiliateId\<close> and \<^verbatim>\<open>referralCode\<close>, which the handler does not
  pass, are empty until the pre-save hook. The keys customCommissionRates, contactInfo,
  paymentInfo, adminNotes and tags of the body go to fields that are not modelled.
\<close>

record create_affiliate_body =
  ca_name :: string
  ca_email :: string
  ca_tier :: "string option"
  ca_commissionRate :: "real option"

definition affiliate_statuses :: "string list" where
  "affiliate_statuses = [''active'', ''inactive'', ''suspended'', ''pending'']"

definition affiliate_tiers :: "string list" where
  "affiliate_tiers = [''bronze'', ''silver'', ''gold'', ''platinum'']"

definition validate_affiliate :: "affiliate \<Rightarrow> bool" where
  "validate_affiliate a \<longleftrightarrow>
     a_name a \<noteq> [] \<and> a_email a \<noteq> [] \<and> affiliateId a \<noteq> [] \<and> referralCode a \<noteq> []
     \<and> a_status a \<in> set affiliate_statuses \<and> a_tier a \<in> set affiliate_tiers
     \<and> 0 \<le> commissionRate a \<and> commissionRate a \<le> 1"

definition new_Affiliate :: "env \<Rightarrow> string \<Rightarrow> string \<Rightarrow> string \<Rightarrow> real \<Rightarrow> string \<Rightarrow> affiliate" where
  "new_Affiliate e name email tier rate status =
     \<lparr>a_id = newId e, a_name = trim name, a_email = cast_affiliate_email email,
      affiliateId = [], referralCode = [], a_status = status, a_tier = tier,
      commissionRate = rate, a_stats = zero_stats, referrals = [], commissions = [],
      lastActivityAt = None\<rparr>"

definition save_new_affiliate :: "env \<Rightarrow> affiliate list \<Rightarrow> affiliate \<Rightarrow> string + affiliate" where
  "save_new_affiliate e db a =
     (if \<not> validate_affiliate a then Inl ''Affiliate validation failed''
      else (let hooked = pre_save e a
            in if list_ex (\<lambda>b. a_email b = a_email hooked \<or> affiliateId b = affiliateId hooked
                               \<or> referralCode b = referralCode hooked) db
               then Inl ''E11000 duplicate key error''
               else Inr hooked))"

definition create_affiliate ::
  "env \<Rightarrow> affiliate list \<Rightarrow> create_affiliate_body \<Rightarrow> affiliate response \<times> affiliate list" where
  "create_affiliate e db body =
     (case findOne_email a_email db (cast_affiliate_email (toLowerCase (ca_email body))) of
        Some existingAffiliate \<Rightarrow>
          (\<lparr>res_status = 409, res_success = Some False,
            res_message = Some ''Affiliate with this email already exists'',
            res_error = None, res_data = None\<rparr>, db)
      | None \<Rightarrow>
          (let affiliate = new_Affiliate e (ca_name body) (toLowerCase (ca_email body))
                 (case ca_tier body of None \<Rightarrow> ''bronze'' | Some t \<Rightarrow> t)
                 (case ca_commissionRate body of None \<Rightarrow> 15/100 | Some r \<Rightarrow> r)
                 ''active''
           in case save_new_affiliate e db affiliate of
                Inl err \<Rightarrow>
                  (\<lparr>res_status = 500, res_success = Some False,
                    res_message = Some ''Error creating affiliate'', res_error = Some err,
                    res_data = None\<rparr>, db)
              | Inr saved \<Rightarrow>
                  (\<lparr>res_status = 201, res_success = Some True,
                    res_message = Some ''Affiliate created successfully'',
                    res_error = None, res_data = Some saved\<rparr>, db @ [saved])))"

section \<open>List endpoints: page and limit\<close>

text \<open>
  A Mongoose query \<^verbatim>\<open>Model.find(filter).sort(sort)\<close> with \<^verbatim>\<open>.skip(n)\<close> and \<^verbatim>\<open>.limit(m)\<close>
  set in either order is sent as one find command: the database filters, sorts, skips
  \<open>n\<close> documents and then returns at most \<open>m\<close>. The filtering and sorting are the
  database's: a handler is given \<open>find_sorted\<close>, which maps the filter (and the sort)
  it has built to the matching documents in sort order, and \<^verbatim>\<open>countDocuments(filter)\<close>
  is the length of that list. A negative skip is refused by the database, a limit of 0
  means no limit, and a negative limit \<open>-m\<close> returns at most \<open>m\<close> documents.

  The numeric query parameters \<^verbatim>\<open>page\<close> and \<^verbatim>\<open>limit\<close> are \<open>None\<close> when absent and
  \<open>Some\<close> of the integer the query string denotes otherwise.
\<close>

definition exec_query :: "'d list \<Rightarrow> int \<Rightarrow> int \<Rightarrow> string + 'd list" where
  "exec_query found skip limit =
     (if skip < 0 then Inl ''skip must be non-negative''
      else (let rest = drop (nat skip) found
            in Inr (if limit = 0 then rest else take (nat \<bar>limit\<bar>) rest)))"

text \<open>
  \<^verbatim>\<open>Math.ceil(total / limit)\<close>: the division by 0 gives Infinity or NaN, which JSON
  renders as null.
\<close>

definition ceil_div :: "nat \<Rightarrow> int \<Rightarrow> int option" where
  "ceil_div totalItems limit =
     (if limit = 0 then None else Some \<lceil>real totalItems / real_of_int limit\<rceil>)"

text \<open>A query-string value is truthy unless it is absent or empty.\<close>

definition truthy :: "string option \<Rightarrow> string option" where
  "truthy q = (case q of None \<Rightarrow> None | Some s \<Rightarrow> if s = [] then None else Some s)"

subsection \<open>GET /affiliates\<close>

record affiliate_filter =
  af_status :: "string option"
  af_tier :: "string option"
  af_search :: "string option"

record affiliate_query =
  aq_page :: "int option"
  aq_limit :: "int option"
  aq_status :: "string option"
  aq_tier :: "string option"
  aq_search :: "string option"
  aq_sortBy :: "string option"
  aq_sortOrder :: "string option"

record affiliate_summary =
  as_totalAffiliates :: nat
  as_activeAffiliates :: nat
  as_totalCommissionEarned :: real
  as_totalCommissionPaid :: real
  as_pendingCommissions :: real
  as_totalReferrals :: real
  as_successfulReferrals :: real

record affiliate_page =
  ap_affiliates :: "affiliate list"
  ap_currentPage :: int
  ap_totalPages :: "int option"
  ap_totalItems :: nat
  ap_itemsPerPage :: int
  ap_stats :: affiliate_summary

definition summary :: "affiliate list \<Rightarrow> affiliate_summary" where
  "summary found =
     \<lparr>as_totalAffiliates = length found,
      as_activeAffiliates = length (filter (\<lambda>a. a_status a = ''active'') found),
      as_totalCommissionEarned = sum_list (map (\<lambda>a. totalCommissionEarned (a_stats a)) found),
      as_totalCommissionPaid = sum_list (map (\<lambda>a. totalCommissionPaid (a_stats a)) found),
      as_pendingCommissions = sum_list (map (\<lambda>a. pendingCommission (a_stats a)) found),
      as_totalReferrals = sum_list (map (\<lambda>a. totalReferrals (a_stats a)) found),
      as_successfulReferrals = sum_list (map (\<lambda>a. successfulReferrals (a_stats a)) found)\<rparr>"

text \<open>A destructuring default applies when the parameter is absent.\<close>

definition or_absent :: "'a option \<Rightarrow> 'a \<Rightarrow> 'a" where
  "or_absent q d = (case q of None \<Rightarrow> d | Some v \<Rightarrow> v)"

definition affiliates_filter :: "affiliate_query \<Rightarrow> affiliate_filter" where
  "affiliates_filter q =
     \<lparr>af_status = truthy (aq_status q), af_tier = truthy (aq_tier q),
      af_search = truthy (aq_search q)\<rparr>"

definition affiliates_sort :: "affiliate_query \<Rightarrow> string \<times> int" where
  "affiliates_sort q =
     (or_absent (aq_sortBy q) ''createdAt'',
      if or_absent (aq_sortOrder q) ''desc'' = ''desc'' then - 1 else 1)"

definition list_affiliates ::
  "(affiliate_filter \<Rightarrow> string \<times> int \<Rightarrow> affiliate list) \<Rightarrow> affiliate_query
     \<Rightarrow> affiliate_page response" where
  "list_affiliates find_sorted q =
     (let page = or_absent (aq_page q) 1;
          limit = or_absent (aq_limit q) 50;
          found = find_sorted (affiliates_filter q) (affiliates_sort q)
      in case exec_query found ((page - 1) * limit) (limit * 1) of
           Inl err \<Rightarrow>
             \<lparr>res_status = 500, res_success = Some False,
              res_message = Some ''Error fetching affiliates'', res_error = Some err,
              res_data = None\<rparr>
         | Inr affiliates \<Rightarrow>
             (let totalItems = length found in
              \<lparr>res_status = 200, res_success = Some True, res_message = None, res_error = None,
               res_data = Some \<lparr>ap_affiliates = affiliates, ap_currentPage = page,
                 ap_totalPages = ceil_div totalItems limit, ap_totalItems = totalItems,
                 ap_itemsPerPage = limit, ap_stats = summary found\<rparr>\<rparr>))"

subsection \<open>GET /admin/customers\<close>

record customer_filter =
  cf_role :: string
  cf_search :: "string option"
  cf_status :: "string option"

record customer_query =
  cq_page :: "int option"
  cq_limit :: "int option"
  cq_search :: "string option"
  cq_status :: "string option"

record customer_page =
  cp_customers :: "user list"
  cp_currentPage :: int
  cp_totalPages :: "int option"
  cp_totalCustomers :: nat

definition customers_filter :: "customer_query \<Rightarrow> customer_filter" where
  "customers_filter q =
     \<lparr>cf_role = ''customer'', cf_search = truthy (cq_search q), cf_status = truthy (cq_status q)\<rparr>"

definition list_customers ::
  "(customer_filter \<Rightarrow> user list) \<Rightarrow> customer_query \<Rightarrow> customer_page response" where
  "list_customers find_sorted q =
     (let page = or_absent (cq_page q) 1;
          limit = or_absent (cq_limit q) 20;
          found = find_sorted (customers_filter q)
      in case exec_query found ((page - 1) * limit) (limit * 1) of
           Inl err \<Rightarrow>
             \<lparr>res_status = 500, res_success = None, res_message = None,
              res_error = Some ''Failed to fetch customers'', res_data = None\<rparr>
         | Inr customers \<Rightarrow>
             (let totalItems = length found in
              \<lparr>res_status = 200, res_success = None, res_message = None, res_error = None,
               res_data = Some \<lparr>cp_customers = map without_password customers,
                 cp_currentPage = page, cp_totalPages = ceil_div totalItems limit,
                 cp_totalCustomers = totalItems\<rparr>\<rparr>))"

subsection \<open>GET /settings/files/:category?\<close>

text \<open>
  The handler does not look into a File document: the type \<open>'f\<close> of the documents is a
  parameter. \<^verbatim>\<open>parseInt(x) || d\<close> is \<open>d\<close> when the parameter is absent (NaN) or 0.
\<close>

record file_filter =
  ff_userId :: oid
  ff_category :: "string option"

record file_query =
  fq_page :: "int option"
  fq_limit :: "int option"

record 'f file_page =
  fp_files :: "'f list"
  fp_current :: int
  fp_pages :: "int option"
  fp_total :: nat
  fp_limit :: int
  fp_category :: string

definition or_default :: "int option \<Rightarrow> int \<Rightarrow> int" where
  "or_default q d = (case q of None \<Rightarrow> d | Some n \<Rightarrow> if n = 0 then d else n)"

definition files_filter :: "oid \<Rightarrow> string option \<Rightarrow> file_filter" where
  "files_filter userId category =
     \<lparr>ff_userId = userId,
      ff_category = (case category of None \<Rightarrow> None
                     | Some c \<Rightarrow> if c \<noteq> ''all'' then Some c else None)\<rparr>"

definition list_files ::
  "(file_filter \<Rightarrow> 'f list) \<Rightarrow> oid \<Rightarrow> string option \<Rightarrow> file_query \<Rightarrow> 'f file_page response" where
  "list_files find_sorted userId categoryParam q =
     (let category = truthy categoryParam;
          limit = or_default (fq_limit q) 50;
          page = or_default (fq_page q) 1;
          skip = (page - 1) * limit;
          found = find_sorted (files_filter userId category)
      in case exec_query found skip limit of
           Inl err \<Rightarrow>
             \<lparr>res_status = 500, res_success = None, res_message = None,
              res_error = Some ''Failed to list files'', res_data = None\<rparr>
         | Inr files \<Rightarrow>
             (let totalItems = length found in
              \<lparr>res_status = 200, res_success = None, res_message = None, res_error = None,
               res_data = Some \<lparr>fp_files = files, fp_current = page,
                 fp_pages = ceil_div totalItems limit, fp_total = totalItems, fp_limit = limit,
                 fp_category = or_absent category ''all''\<rparr>\<rparr>))"

text \<open>The slice the specification describes: \<open>limit\<close> items from offset \<open>(page - 1) * limit\<close>.\<close>

definition page_slice :: "'d list \<Rightarrow> int \<Rightarrow> int \<Rightarrow> 'd list" where
  "page_slice found page limit = take (nat limit) (drop (nat ((page - 1) * limit)) found)"

section \<open>Example documents\<close>

definition ex_stats :: stats where
  "ex_stats = \<lparr>totalReferrals = 4, successfulReferrals = 1, totalCommissionEarned = 30,
     totalCommissionPaid = 10, pendingCommission = 20, conversionRate = 25,
     averageOrderValue = 0, lifetimeValue = 0\<rparr>"

definition ex_referral :: referral where
  "ex_referral = \<lparr>r_id = 7, r_customerId = Some 70, r_customerEmail = Some ''c@x.io'',
     r_signupDate = 100, r_firstPurchaseDate = None, r_totalSpent = 0,
     r_commissionEarned = 0, r_status = Signup\<rparr>"

definition ex_commission :: "oid \<Rightarrow> real \<Rightarrow> commission_status \<Rightarrow> commission" where
  "ex_commission i amt st = \<lparr>c_id = i, c_orderId = Some ''ord'', c_customerId = Some 70,
     c_orderAmount = amt * 10, c_commissionAmount = amt, c_commissionRate = 1/10,
     c_status = st, c_approvedBy = None, c_approvedAt = None, c_paidAt = None,
     c_paymentMethod = None, c_paymentReference = None, c_createdAt = 50\<rparr>"

definition ex_affiliate :: affiliate where
  "ex_affiliate = \<lparr>a_id = 1, a_name = ''Ann Lee'', a_email = ''ann@x.io'',
     affiliateId = ''AFF1ABCD'', referralCode = ''ANNLWXYZ'', a_status = ''active'',
     a_tier = ''bronze'', commissionRate = 1/5, a_stats = ex_stats,
     referrals = [ex_referral],
     commissions = [ex_commission 11 10 Paid, ex_commission 12 8 Approved, ex_commission 13 12 Pending],
     lastActivityAt = Some 900\<rparr>"

definition ex_env :: env where
  "ex_env = \<lparr>now = 1000, savedAt = 1001, newId = 14, random1 = ''0.k3j9x'', random2 = ''0.zz81q''\<rparr>"


definition ex_payment :: paymentData where
  "ex_payment = \<lparr>pd_method = Some ''paypal'', pd_reference = Some ''PP-77''\<rparr>"

definition ex_fresh :: affiliate where
  "ex_fresh = \<lparr>a_id = 2, a_name = ''Bo Chen'', a_email = ''bo@x.io'',
     affiliateId = ''AFF2EFGH'', referralCode = ''BOCHQRST'', a_status = ''active'',
     a_tier = ''bronze'', commissionRate = 3/20, a_stats = zero_stats,
     referrals = [], commissions = [], lastActivityAt = None\<rparr>"

definition ex_env_at :: "nat \<Rightarrow> env" where
  "ex_env_at k = \<lparr>now = 2000 + k, savedAt = 2000 + k, newId = k,
     random1 = ''0.k3j9x'', random2 = ''0.zz81q''\<rparr>"

definition ex_history :: "(env \<times> operation) list" where
  "ex_history =
     [(ex_env_at 1, AddReferral \<lparr>cd_customerId = Some 70, cd_email = Some ''c@x.io''\<rparr>),
      (ex_env_at 2, AddReferral \<lparr>cd_customerId = Some 71, cd_email = Some ''d@x.io''\<rparr>),
      (ex_env_at 3, RecordConversion 1 \<lparr>od_orderId = Some ''o-1'', od_amount = 200\<rparr>),
      (ex_env_at 4, RecordConversion 2 \<lparr>od_orderId = Some ''o-2'', od_amount = 100\<rparr>),
      (ex_env_at 5, ApproveCommission 3 9),
      (ex_env_at 6, PayCommission 3 ex_payment),
      (ex_env_at 7, PayCommission 4 ex_payment)]"

definition ex_fresh64 :: affiliate where
  "ex_fresh64 = ex_fresh\<lparr>commissionRate := round64 (15/100)\<rparr>"

definition ex_history64 :: "(env \<times> operation) list" where
  "ex_history64 =
     [(ex_env_at 1, AddReferral \<lparr>cd_customerId = Some 70, cd_email = Some ''c@x.io''\<rparr>),
      (ex_env_at 2, AddReferral \<lparr>cd_customerId = Some 71, cd_email = Some ''d@x.io''\<rparr>),
      (ex_env_at 3, RecordConversion 1 \<lparr>od_orderId = Some ''o-1'', od_amount = 1\<rparr>),
      (ex_env_at 4, RecordConversion 2 \<lparr>od_orderId = Some ''o-2'', od_amount = 2\<rparr>),
      (ex_env_at 5, ApproveCommission 3 9),
      (ex_env_at 6, PayCommission 3 ex_payment)]"

definition ex_pay_body :: pay_body where
  "ex_pay_body = \<lparr>paymentMethod = Some ''paypal'', paymentReference = Some ''PP-77''\<rparr>"

definition no_write_error :: "'d list \<Rightarrow> 'd \<Rightarrow> string option" where
  "no_write_error db d = None"

definition ex_user :: "oid \<Rightarrow> string \<Rightarrow> string \<Rightarrow> string \<Rightarrow> user" where
  "ex_user i email role status = \<lparr>u_id = i, u_name = ''Kim'', u_email = email,
     u_password = ''$2b$10$hash'', u_role = role, u_position = ''Member'', u_status = status,
     u_business = None, u_adminPermissions = no_permissions, u_createdAt = 10\<rparr>"

definition ex_users :: "user list" where
  "ex_users = [ex_user 1 ''root@x.io'' ''main_admin'' ''active'',
               ex_user 2 ''kim@x.io'' ''customer'' ''active'',
               ex_user 3 ''sam@x.io'' ''support'' ''active'']"

definition ex_user_env :: user_env where
  "ex_user_env = \<lparr>ue_now = 3000, ue_newId = 4, ue_hash = (\<lambda>p. ''$2b$10$'' @ rev p),
     ue_sign = (\<lambda>i email role. ''jwt.'' @ email)\<rparr>"

definition ex_create_body :: "string \<Rightarrow> create_user_body" where
  "ex_create_body email = \<lparr>cu_name = '' Lee '', cu_email = email, cu_password = ''pw'',
     cu_role = ''Support'', cu_department = ''ops'', cu_adminPermissions = None,
     cu_status = []\<rparr>"

definition ex_register_body :: "string \<Rightarrow> register_body" where
  "ex_register_body email = \<lparr>rb_name = ''Lee'', rb_email = email, rb_password = ''pw'',
     rb_business = None, rb_position = [], rb_role = []\<rparr>"

definition ex_affiliate_body :: "string \<Rightarrow> create_affiliate_body" where
  "ex_affiliate_body email = \<lparr>ca_name = '' Al  Po '', ca_email = email, ca_tier = None,
     ca_commissionRate = None\<rparr>"

text \<open>The files of user 2, by their keys, newest first.\<close>

definition ex_files :: "file_filter \<Rightarrow> string list" where
  "ex_files flt =
     (if ff_userId flt = 2 then [''e.pdf'', ''d.pdf'', ''c.pdf'', ''b.pdf'', ''a.pdf''] else [])"

definition ex_find_affiliates :: "affiliate_filter \<Rightarrow> string \<times> int \<Rightarrow> affiliate list" where
  "ex_find_affiliates flt srt = [ex_fresh, ex_affiliate]"

definition ex_find_customers :: "customer_filter \<Rightarrow> user list" where
  "ex_find_customers flt = filter (\<lambda>u. u_role u = cf_role flt) ex_users"

definition ex_affiliate_query :: "int option \<Rightarrow> int option \<Rightarrow> affiliate_query" where
  "ex_affiliate_query page limit = \<lparr>aq_page = page, aq_limit = limit, aq_status = None,
     aq_tier = None, aq_search = None, aq_sortBy = None, aq_sortOrder = None\<rparr>"

section \<open>Properties of the methods\<close>

lemma save_fields:
  "a_stats (save e a) = a_stats a" "commissions (save e a) = commissions a"
  "referrals (save e a) = referrals a" "commissionRate (save e a) = commissionRate a"
  by (simp_all add: save_def pre_save_def Let_def)

lemma by_id_update_id:
  assumes "by_id key xs i = Some x" and "key (f x) = i"
  shows "by_id key (update_id key i f xs) i = Some (f x)"
  using assms by (induction xs) (auto simp: by_id_def split: if_splits)

lemma by_id_Some_key: "by_id key xs i = Some x \<Longrightarrow> key x = i"
  by (induction xs) (auto simp: by_id_def split: if_splits)

lemma ex_commission_fields:
  "c_id (ex_commission i amt st) = i" "c_status (ex_commission i amt st) = st"
  "c_commissionAmount (ex_commission i amt st) = amt"
  by (simp_all add: ex_commission_def)

lemma ex_affiliate_fields:
  "a_stats ex_affiliate = ex_stats"
  "commissions ex_affiliate =
     [ex_commission 11 10 Paid, ex_commission 12 8 Approved, ex_commission 13 12 Pending]"
  "referrals ex_affiliate = [ex_referral]" "commissionRate ex_affiliate = 1/5"
  by (simp_all add: ex_affiliate_def)

lemma ex_affiliate_by_id:
  "by_id c_id (commissions ex_affiliate) 11 = Some (ex_commission 11 10 Paid)"
  "by_id c_id (commissions ex_affiliate) 12 = Some (ex_commission 12 8 Approved)"
  "by_id c_id (commissions ex_affiliate) 13 = Some (ex_commission 13 12 Pending)"
  "by_id r_id (referrals ex_affiliate) 7 = Some ex_referral"
  by (simp_all add: ex_affiliate_fields by_id_def ex_commission_fields ex_referral_def)


lemma ex_env_fields:
  "now ex_env = 1000" "savedAt ex_env = 1001" "newId ex_env = 14"
  by (simp_all add: ex_env_def)











text \<open>
  Claim C4. For a \<^verbatim>\<open>commissionId\<close> that \<^verbatim>\<open>commissions.id\<close> finds with status pending,
  \<^verbatim>\<open>approveCommission\<close> sets that commission to approved and records
  \<^verbatim>\<open>approvedBy = adminId\<close> and the time as \<^verbatim>\<open>approvedAt\<close>. From any other status the
  commission list stays as it was: the transition is taken only from pending. In both
  cases every field of \<^verbatim>\<open>stats\<close> is unchanged.
\<close>

theorem approveCommission_effect:
  assumes "by_id c_id (commissions a) commissionId = Some c"
  shows "(c_status c = Pending \<longrightarrow>
            by_id c_id (commissions (approveCommission e a commissionId adminId)) commissionId =
              Some (c\<lparr>c_status := Approved, c_approvedBy := Some adminId,
                       c_approvedAt := Some (now e)\<rparr>)
          \<and> commissions (approveCommission e a commissionId adminId) =
              update_id c_id commissionId
                (\<lambda>c. c\<lparr>c_status := Approved, c_approvedBy := Some adminId,
                        c_approvedAt := Some (now e)\<rparr>)
                (commissions a))
       \<and> (c_status c \<noteq> Pending \<longrightarrow>
            commissions (approveCommission e a commissionId adminId) = commissions a)
       \<and> a_stats (approveCommission e a commissionId adminId) = a_stats a"
proof -
  have k: "c_id c = commissionId"
    using assms by (rule by_id_Some_key)
  show ?thesis
    using assms k
    by (simp add: approveCommission_def save_fields Let_def by_id_update_id)
qed


theorem approveCommission_effect_witness:
  "by_id c_id (commissions ex_affiliate) 13 = Some (ex_commission 13 12 Pending)
   \<and> by_id c_id (commissions (approveCommission ex_env ex_affiliate 13 9)) 13 =
       Some ((ex_commission 13 12 Pending)\<lparr>c_status := Approved, c_approvedBy := Some 9,
              c_approvedAt := Some 1000\<rparr>)
   \<and> a_stats (approveCommission ex_env ex_affiliate 13 9) = ex_stats
   \<and> by_id c_id (commissions ex_affiliate) 11 = Some (ex_commission 11 10 Paid)
   \<and> commissions (approveCommission ex_env ex_affiliate 11 9) = commissions ex_affiliate
   \<and> a_stats (approveCommission ex_env ex_affiliate 11 9) = ex_stats"
  using approveCommission_effect[OF ex_affiliate_by_id(3), of ex_env 9]
    approveCommission_effect[OF ex_affiliate_by_id(1), of ex_env 9]
  by (simp add: ex_affiliate_by_id ex_commission_fields ex_affiliate_fields(1,2) ex_env_fields
        by_id_def)

subsection \<open>Earned, paid and outstanding\<close>

lemma outstanding_append:
  "outstanding (cs @ [c]) =
     outstanding cs + (if c_status c = Pending \<or> c_status c = Approved then c_commissionAmount c else 0)"
  by (simp add: outstanding_def)

lemma outstanding_update_id:
  assumes "by_id c_id cs i = Some c"
  shows "outstanding (update_id c_id i f cs) =
           outstanding cs
           - (if c_status c = Pending \<or> c_status c = Approved then c_commissionAmount c else 0)
           + (if c_status (f c) = Pending \<or> c_status (f c) = Approved then c_commissionAmount (f c) else 0)"
  using assms
proof (induction cs)
  case Nil
  then show ?case by (simp add: by_id_def)
next
  case (Cons x xs)
  show ?case
  proof (cases "c_id x = i")
    case True
    with Cons.prems have "x = c" by (simp add: by_id_def)
    with True show ?thesis by (simp add: outstanding_def)
  next
    case False
    with Cons.prems have "by_id c_id xs i = Some c" by (simp add: by_id_def)
    from Cons.IH[OF this] False show ?thesis by (simp add: outstanding_def)
  qed
qed

lemma balanced_save: "balanced (save e a) = balanced a"
  by (simp add: balanced_def save_fields)

lemma balanced_addReferral: "balanced a \<Longrightarrow> balanced (addReferral_fp rnd e a cd)"
  by (simp add: addReferral_fp_def Let_def balanced_save) (simp add: balanced_def)

lemma balanced_recordConversion:
  assumes "balanced a" and "exact_step rnd a (e, RecordConversion i od)"
  shows "balanced (recordConversion_fp rnd e a i od)"
proof (cases "by_id r_id (referrals a) i")
  case None
  with assms(1) show ?thesis
    by (simp add: recordConversion_fp_def balanced_save)
next
  case (Some r)
  with assms(2) have x: "rnd (totalCommissionEarned (a_stats a) + rnd (od_amount od * commissionRate a)) =
      totalCommissionEarned (a_stats a) + rnd (od_amount od * commissionRate a)"
    by simp
  from assms(1) Some show ?thesis
    by (simp add: recordConversion_fp_def Let_def balanced_save)
       (simp add: balanced_def outstanding_append new_commission_def x)
qed

lemma balanced_approveCommission: "balanced a \<Longrightarrow> balanced (approveCommission e a i adm)"
  by (cases "by_id c_id (commissions a) i")
     (simp_all add: approveCommission_def balanced_save,
      simp add: balanced_def outstanding_update_id)

lemma balanced_payCommission:
  assumes "balanced a" and "exact_step rnd a (e, PayCommission i pd)"
  shows "balanced (payCommission_fp rnd e a i pd)"
proof (cases "by_id c_id (commissions a) i")
  case None
  with assms(1) show ?thesis
    by (simp add: payCommission_fp_def balanced_save)
next
  case (Some c)
  show ?thesis
  proof (cases "c_status c = Approved")
    case False
    with assms(1) Some show ?thesis
      by (simp add: payCommission_fp_def balanced_save)
  next
    case True
    with assms(2) Some have x: "rnd (totalCommissionPaid (a_stats a) + c_commissionAmount c) =
        totalCommissionPaid (a_stats a) + c_commissionAmount c"
      by simp
    from assms(1) Some True show ?thesis
      by (simp add: payCommission_fp_def Let_def balanced_save)
         (simp add: balanced_def outstanding_update_id x)
  qed
qed

lemma balanced_apply_operation:
  assumes "balanced a" and "exact_step rnd a x"
  shows "balanced (apply_operation rnd a x)"
proof (cases x)
  case (Pair e opn)
  with assms show ?thesis
    by (cases opn)
       (simp_all add: balanced_addReferral balanced_recordConversion
          balanced_approveCommission balanced_payCommission)
qed

lemma balanced_run: "balanced a \<Longrightarrow> exact_totals rnd a ops \<Longrightarrow> balanced (run rnd a ops)"
  unfolding run_def
  by (induction ops arbitrary: a) (simp_all add: balanced_apply_operation)

lemma exact_totals_identity: "exact_totals (\<lambda>x. x) a ops"
proof (induction ops arbitrary: a)
  case Nil
  show ?case by simp
next
  case (Cons x xs)
  obtain e opn where "x = (e, opn)" by (cases x)
  then have "exact_step (\<lambda>x. x) a x"
    by (cases opn) (simp_all split: option.split)
  with Cons show ?case by simp
qed

lemma fp_identity:
  "addReferral_fp (\<lambda>x. x) e a cd = addReferral e a cd"
  "recordConversion_fp (\<lambda>x. x) e a i od = recordConversion e a i od"
  "payCommission_fp (\<lambda>x. x) e a i pd = payCommission e a i pd"
  by (simp_all add: addReferral_fp_def addReferral_def recordConversion_fp_def
        recordConversion_def payCommission_fp_def payCommission_def
        calculatedConversionRate_fp_def calculatedConversionRate_def round_number_def
        js_divide_def js_times_def Let_def split: option.split)

text \<open>
  Claim C1, as the code has it. Take an affiliate document as it is created: every counter
  of \<^verbatim>\<open>stats\<close> is 0 and there is no commission. After any sequence of calls of
  \<^verbatim>\<open>addReferral\<close>, \<^verbatim>\<open>recordConversion\<close>, \<^verbatim>\<open>approveCommission\<close> and \<^verbatim>\<open>payCommission\<close> in
  which no update of \<^verbatim>\<open>totalCommissionEarned\<close> or \<^verbatim>\<open>totalCommissionPaid\<close> rounds,
  \<^verbatim>\<open>totalCommissionEarned - totalCommissionPaid\<close> is the sum of the \<^verbatim>\<open>commissionAmount\<close> of
  the commissions that are pending or approved, and the virtual \<^verbatim>\<open>pendingPayout\<close> returns
  this sum, rounded. This holds for every rounding \<open>rnd\<close>: for \<open>round64\<close>, and for the
  identity, where no update rounds and the equality holds after every sequence.
\<close>

theorem pendingPayout_outstanding_when_exact:
  assumes "a_stats a = zero_stats" and "commissions a = []" and "exact_totals rnd a ops"
  shows "totalCommissionEarned (a_stats (run rnd a ops)) - totalCommissionPaid (a_stats (run rnd a ops))
           = outstanding (commissions (run rnd a ops))
       \<and> pendingPayout rnd (run rnd a ops) = rnd (outstanding (commissions (run rnd a ops)))"
proof -
  have "balanced a"
    using assms(1,2) by (simp add: balanced_def zero_stats_def outstanding_def)
  then have "balanced (run rnd a ops)"
    using assms(3) by (rule balanced_run)
  then show ?thesis
    by (simp add: balanced_def pendingPayout_def)
qed

theorem pendingPayout_outstanding_when_exact_witness:
  "a_stats ex_fresh64 = zero_stats \<and> commissions ex_fresh64 = []
   \<and> exact_totals round64 ex_fresh64 ex_history
   \<and> map c_status (commissions (run round64 ex_fresh64 ex_history)) = [Paid, Pending]
   \<and> map c_commissionAmount (commissions (run round64 ex_fresh64 ex_history)) = [30, 15]
   \<and> totalCommissionEarned (a_stats (run round64 ex_fresh64 ex_history)) = 45
   \<and> totalCommissionPaid (a_stats (run round64 ex_fresh64 ex_history)) = 30
   \<and> outstanding (commissions (run round64 ex_fresh64 ex_history)) = 15
   \<and> pendingPayout round64 (run round64 ex_fresh64 ex_history) = 15"
proof -
  have h: "a_stats ex_fresh64 = zero_stats" "commissions ex_fresh64 = []"
    "exact_totals round64 ex_fresh64 ex_history"
    by code_simp+
  have "(let a = run round64 ex_fresh64 ex_history
         in (map c_status (commissions a), map c_commissionAmount (commissions a),
             totalCommissionEarned (a_stats a), totalCommissionPaid (a_stats a)))
        = ([Paid, Pending], [30, 15], 45, 30)"
    by code_simp
  then have r: "map c_status (commissions (run round64 ex_fresh64 ex_history)) = [Paid, Pending]"
    "map c_commissionAmount (commissions (run round64 ex_fresh64 ex_history)) = [30, 15]"
    "totalCommissionEarned (a_stats (run round64 ex_fresh64 ex_history)) = 45"
    "totalCommissionPaid (a_stats (run round64 ex_fresh64 ex_history)) = 30"
    by (simp_all add: Let_def)
  have q: "round64 15 = 15"
    by code_simp
  from pendingPayout_outstanding_when_exact[OF h] r(3) r(4) q
  have "outstanding (commissions (run round64 ex_fresh64 ex_history)) = 15"
    "pendingPayout round64 (run round64 ex_fresh64 ex_history) = 15"
    by simp_all
  with h r show ?thesis
    by (intro conjI)
qed

text \<open>
  The claim as the specification words it has the equality after every sequence. In
  double precision, at the schema's default rate 0.15, convert an order of 1 and an
  order of 2, approve and pay the first commission: \<^verbatim>\<open>totalCommissionEarned\<close> is
  \<^verbatim>\<open>0.15 + 0.3\<close> rounded, 0.44999999999999996, so that earned minus paid, and
  \<^verbatim>\<open>pendingPayout\<close>, are 0.29999999999999993, while the one commission still owed is 0.3.
  The values are given as the fractions they are.
\<close>

theorem pendingPayout_rounding_counterexample:
  "a_stats ex_fresh64 = zero_stats \<and> commissions ex_fresh64 = []
   \<and> commissionRate ex_fresh64 = 5404319552844595 / 36028797018963968
   \<and> map c_status (commissions (run round64 ex_fresh64 ex_history64)) = [Paid, Pending]
   \<and> totalCommissionEarned (a_stats (run round64 ex_fresh64 ex_history64)) =
       2026619832316723 / 4503599627370496
   \<and> totalCommissionPaid (a_stats (run round64 ex_fresh64 ex_history64)) =
       5404319552844595 / 36028797018963968
   \<and> pendingPayout round64 (run round64 ex_fresh64 ex_history64) =
       2702159776422297 / 9007199254740992
   \<and> outstanding (commissions (run round64 ex_fresh64 ex_history64)) =
       5404319552844595 / 18014398509481984
   \<and> totalCommissionEarned (a_stats (run round64 ex_fresh64 ex_history64))
       - totalCommissionPaid (a_stats (run round64 ex_fresh64 ex_history64))
       \<noteq> outstanding (commissions (run round64 ex_fresh64 ex_history64))
   \<and> pendingPayout round64 (run round64 ex_fresh64 ex_history64)
       \<noteq> outstanding (commissions (run round64 ex_fresh64 ex_history64))"
proof -
  have h: "a_stats ex_fresh64 = zero_stats" "commissions ex_fresh64 = []"
    "commissionRate ex_fresh64 = 5404319552844595 / 36028797018963968"
    by code_simp+
  have "(let a = run round64 ex_fresh64 ex_history64
         in (map c_status (commissions a), totalCommissionEarned (a_stats a),
             totalCommissionPaid (a_stats a), pendingPayout round64 a,
             outstanding (commissions a)))
        = ([Paid, Pending], 2026619832316723 / 4503599627370496,
           5404319552844595 / 36028797018963968, 2702159776422297 / 9007199254740992,
           5404319552844595 / 18014398509481984)"
    by code_simp
  then have r: "map c_status (commissions (run round64 ex_fresh64 ex_history64)) = [Paid, Pending]"
    "totalCommissionEarned (a_stats (run round64 ex_fresh64 ex_history64)) =
       2026619832316723 / 4503599627370496"
    "totalCommissionPaid (a_stats (run round64 ex_fresh64 ex_history64)) =
       5404319552844595 / 36028797018963968"
    "pendingPayout round64 (run round64 ex_fresh64 ex_history64) =
       2702159776422297 / 9007199254740992"
    "outstanding (commissions (run round64 ex_fresh64 ex_history64)) =
       5404319552844595 / 18014398509481984"
    by (simp_all add: Let_def)
  have d: "totalCommissionEarned (a_stats (run round64 ex_fresh64 ex_history64))
       - totalCommissionPaid (a_stats (run round64 ex_fresh64 ex_history64))
       \<noteq> outstanding (commissions (run round64 ex_fresh64 ex_history64))"
    "pendingPayout round64 (run round64 ex_fresh64 ex_history64)
       \<noteq> outstanding (commissions (run round64 ex_fresh64 ex_history64))"
    unfolding r by simp_all
  from h r d show ?thesis
    by (intro conjI)
qed

subsection \<open>Repeated approval and payment\<close>

lemma approve_twice:
  "commissions (approveCommission e2 (approveCommission e1 a i adm1) i adm2) =
     commissions (approveCommission e1 a i adm1)
   \<and> a_stats (approveCommission e2 (approveCommission e1 a i adm1) i adm2) =
     a_stats (approveCommission e1 a i adm1)"
proof (cases "by_id c_id (commissions a) i")
  case None
  then show ?thesis by (simp add: approveCommission_def save_fields)
next
  case (Some c)
  then have k: "c_id c = i" by (rule by_id_Some_key)
  show ?thesis
    using Some k by (simp add: approveCommission_def save_fields by_id_update_id)
qed

lemma pay_twice:
  "commissions (payCommission e2 (payCommission e1 a i pd1) i pd2) =
     commissions (payCommission e1 a i pd1)
   \<and> a_stats (payCommission e2 (payCommission e1 a i pd1) i pd2) =
     a_stats (payCommission e1 a i pd1)"
proof (cases "by_id c_id (commissions a) i")
  case None
  then show ?thesis by (simp add: payCommission_def save_fields)
next
  case (Some c)
  then have k: "c_id c = i" by (rule by_id_Some_key)
  show ?thesis
    using Some k by (simp add: payCommission_def save_fields by_id_update_id Let_def)
qed

lemma pay_again_unchanged:
  assumes "by_id c_id (commissions a) i = None \<or> (\<exists>c. by_id c_id (commissions a) i = Some c \<and> c_status c \<noteq> Approved)"
  shows "commissions (payCommission e a i pd) = commissions a \<and> a_stats (payCommission e a i pd) = a_stats a"
  using assms by (auto simp: payCommission_def save_fields)

lemma settled_after_pay:
  "by_id c_id (commissions (payCommission e a i pd)) i = None \<or>
   (\<exists>c. by_id c_id (commissions (payCommission e a i pd)) i = Some c \<and> c_status c \<noteq> Approved)"
proof (cases "by_id c_id (commissions a) i")
  case None
  then show ?thesis by (simp add: payCommission_def save_fields)
next
  case (Some c)
  then have k: "c_id c = i" by (rule by_id_Some_key)
  show ?thesis
    using Some k by (simp add: payCommission_def save_fields by_id_update_id Let_def)
qed

lemma pay_repeatedly_unchanged:
  assumes "by_id c_id (commissions a) i = None \<or> (\<exists>c. by_id c_id (commissions a) i = Some c \<and> c_status c \<noteq> Approved)"
  shows "commissions (pay_repeatedly a i calls) = commissions a \<and> a_stats (pay_repeatedly a i calls) = a_stats a"
  using assms
proof (induction calls arbitrary: a)
  case Nil
  then show ?case by (simp add: pay_repeatedly_def)
next
  case (Cons x xs)
  obtain e pd where x: "x = (e, pd)" by (cases x)
  have u: "commissions (payCommission e a i pd) = commissions a \<and> a_stats (payCommission e a i pd) = a_stats a"
    using Cons.prems by (rule pay_again_unchanged)
  have "by_id c_id (commissions (payCommission e a i pd)) i = None \<or>
     (\<exists>c. by_id c_id (commissions (payCommission e a i pd)) i = Some c \<and> c_status c \<noteq> Approved)"
    using Cons.prems u by simp
  from Cons.IH[OF this] u x show ?case
    by (simp add: pay_repeatedly_def)
qed

text \<open>
  Claim C6. Calling \<^verbatim>\<open>approveCommission\<close> a second time with the same
  \<^verbatim>\<open>commissionId\<close> leaves the commission list and every field of \<^verbatim>\<open>stats\<close> as the first
  call left them, and so does a second \<^verbatim>\<open>payCommission\<close>, and any number of further
  \<^verbatim>\<open>payCommission\<close> calls: the amount of a commission moves from
  \<^verbatim>\<open>pendingCommission\<close> to \<^verbatim>\<open>totalCommissionPaid\<close> at most once.
\<close>

theorem approve_pay_idempotent:
  "commissions (approveCommission e2 (approveCommission e1 a i adm1) i adm2) =
     commissions (approveCommission e1 a i adm1)
   \<and> a_stats (approveCommission e2 (approveCommission e1 a i adm1) i adm2) =
     a_stats (approveCommission e1 a i adm1)
   \<and> commissions (payCommission e2 (payCommission e1 a i pd1) i pd2) =
     commissions (payCommission e1 a i pd1)
   \<and> a_stats (payCommission e2 (payCommission e1 a i pd1) i pd2) =
     a_stats (payCommission e1 a i pd1)
   \<and> commissions (pay_repeatedly (payCommission e1 a i pd1) i calls) =
     commissions (payCommission e1 a i pd1)
   \<and> a_stats (pay_repeatedly (payCommission e1 a i pd1) i calls) =
     a_stats (payCommission e1 a i pd1)"
  using approve_twice[of e2 e1 a i adm1 adm2] pay_twice[of e2 e1 a i pd1 pd2]
    pay_repeatedly_unchanged[OF settled_after_pay, of e1 a i pd1 calls]
  by simp


theorem approve_pay_idempotent_witness:
  "a_stats (payCommission ex_env ex_affiliate 12 ex_payment) =
     ex_stats\<lparr>totalCommissionPaid := 18, pendingCommission := 12\<rparr>
   \<and> a_stats (pay_repeatedly (payCommission ex_env ex_affiliate 12 ex_payment) 12
        [(ex_env_at 1, ex_payment), (ex_env_at 2, ex_payment), (ex_env_at 3, ex_payment)]) =
     ex_stats\<lparr>totalCommissionPaid := 18, pendingCommission := 12\<rparr>
   \<and> map c_status (commissions (approveCommission (ex_env_at 1)
        (approveCommission ex_env ex_affiliate 13 9) 13 8)) = [Paid, Approved, Approved]
   \<and> map c_approvedBy (commissions (approveCommission (ex_env_at 1)
        (approveCommission ex_env ex_affiliate 13 9) 13 8)) = [None, None, Some 9]"
proof -
  have p: "a_stats (payCommission ex_env ex_affiliate 12 ex_payment) =
     ex_stats\<lparr>totalCommissionPaid := 18, pendingCommission := 12\<rparr>"
    by (simp add: payCommission_def save_fields Let_def by_id_def ex_affiliate_def
          ex_commission_def ex_stats_def)
  have q: "map c_status (commissions (approveCommission ex_env ex_affiliate 13 9)) =
       [Paid, Approved, Approved]
     \<and> map c_approvedBy (commissions (approveCommission ex_env ex_affiliate 13 9)) =
       [None, None, Some 9]"
    by (simp add: approveCommission_def save_fields by_id_def ex_affiliate_def ex_commission_def)
  show ?thesis
    using p q
      approve_pay_idempotent[of "ex_env_at 1" ex_env ex_affiliate 12 9 8 ex_payment ex_payment
        "[(ex_env_at 1, ex_payment), (ex_env_at 2, ex_payment), (ex_env_at 3, ex_payment)]"]
      approve_pay_idempotent[of "ex_env_at 1" ex_env ex_affiliate 13 9 8 ex_payment ex_payment "[]"]
    by simp
qed

section \<open>Properties of the routes\<close>

subsection \<open>Transitions from the wrong status\<close>

lemma save_touches:
  "affiliateId a \<noteq> [] \<Longrightarrow> referralCode a \<noteq> [] \<Longrightarrow> save e a = a\<lparr>lastActivityAt := Some (savedAt e)\<rparr>"
  by (simp add: save_def pre_save_def)

text \<open>
  Claim C5, as the code has it. When \<^verbatim>\<open>commissions.id\<close> finds the commission in a
  status other than the one the transition starts from (\<^verbatim>\<open>payCommission\<close> on a
  commission that is not approved, \<^verbatim>\<open>approveCommission\<close> on one that is not pending),
  the method only saves the document: the commission list, \<^verbatim>\<open>stats\<close>, the referrals and
  the commission rate are unchanged, the pre-save hook sets \<^verbatim>\<open>lastActivityAt\<close> to the
  time of the save, and for a document that has its \<^verbatim>\<open>affiliateId\<close> and \<^verbatim>\<open>referralCode\<close>
  nothing else changes. When the save is accepted the route answers 200 with
  \<^verbatim>\<open>success: true\<close> and its usual message.
\<close>

theorem invalid_transition_keeps_books:
  assumes "by_id a_id db reqId = Some a"
    and "by_id c_id (commissions a) commissionId = Some c"
  shows "(c_status c \<noteq> Approved \<longrightarrow>
            payCommission e a commissionId pd = save e a
          \<and> (write_error db (save e a) = None \<longrightarrow>
               pay_route write_error e db reqId commissionId body =
                 (\<lparr>res_status = 200, res_success = Some True,
                   res_message = Some ''Commission paid successfully'', res_error = None,
                   res_data = None\<rparr>, update_id a_id reqId (\<lambda>_. save e a) db)))
       \<and> (c_status c \<noteq> Pending \<longrightarrow>
            approveCommission e a commissionId adminId = save e a
          \<and> (write_error db (save e a) = None \<longrightarrow>
               approve_route write_error e db reqId commissionId adminId =
                 (\<lparr>res_status = 200, res_success = Some True,
                   res_message = Some ''Commission approved successfully'', res_error = None,
                   res_data = None\<rparr>, update_id a_id reqId (\<lambda>_. save e a) db)))
       \<and> commissions (save e a) = commissions a
       \<and> a_stats (save e a) = a_stats a
       \<and> referrals (save e a) = referrals a
       \<and> commissionRate (save e a) = commissionRate a
       \<and> lastActivityAt (save e a) = Some (savedAt e)
       \<and> (affiliateId a \<noteq> [] \<and> referralCode a \<noteq> [] \<longrightarrow>
            save e a = a\<lparr>lastActivityAt := Some (savedAt e)\<rparr>)"
proof -
  have pay: "c_status c \<noteq> Approved \<Longrightarrow> payCommission e a commissionId pd = save e a" for pd
    using assms(2) by (simp add: payCommission_def)
  have app: "c_status c \<noteq> Pending \<Longrightarrow> approveCommission e a commissionId adminId = save e a"
    using assms(2) by (simp add: approveCommission_def)
  have l: "lastActivityAt (save e a) = Some (savedAt e)"
    by (simp add: save_def pre_save_def Let_def)
  show ?thesis
    using assms(1) pay app l
    by (simp add: pay_route_def approve_route_def save_fields save_touches Let_def)
qed

theorem invalid_transition_keeps_books_witness:
  "by_id a_id [ex_fresh, ex_affiliate] 1 = Some ex_affiliate
   \<and> by_id c_id (commissions ex_affiliate) 13 = Some (ex_commission 13 12 Pending)
   \<and> c_status (ex_commission 13 12 Pending) \<noteq> Approved
   \<and> pay_route no_write_error ex_env [ex_fresh, ex_affiliate] 1 13 ex_pay_body =
       (\<lparr>res_status = 200, res_success = Some True,
         res_message = Some ''Commission paid successfully'', res_error = None,
         res_data = None\<rparr>, [ex_fresh, ex_affiliate\<lparr>lastActivityAt := Some 1001\<rparr>])
   \<and> by_id c_id (commissions ex_affiliate) 11 = Some (ex_commission 11 10 Paid)
   \<and> c_status (ex_commission 11 10 Paid) \<noteq> Pending
   \<and> approve_route no_write_error ex_env [ex_fresh, ex_affiliate] 1 11 9 =
       (\<lparr>res_status = 200, res_success = Some True,
         res_message = Some ''Commission approved successfully'', res_error = None,
         res_data = None\<rparr>, [ex_fresh, ex_affiliate\<lparr>lastActivityAt := Some 1001\<rparr>])"
proof -
  have d: "by_id a_id [ex_fresh, ex_affiliate] 1 = Some ex_affiliate"
    by (simp add: by_id_def ex_fresh_def ex_affiliate_def)
  have u: "a_id ex_fresh = 2" "a_id ex_affiliate = 1"
    by (simp_all add: ex_fresh_def ex_affiliate_def)
  have i: "affiliateId ex_affiliate \<noteq> [] \<and> referralCode ex_affiliate \<noteq> []"
    by (simp add: ex_affiliate_def)
  show ?thesis
    using d i
      invalid_transition_keeps_books[OF d ex_affiliate_by_id(3), of ex_env ex_payment no_write_error ex_pay_body 9]
      invalid_transition_keeps_books[OF d ex_affiliate_by_id(1), of ex_env ex_payment no_write_error ex_pay_body 9]
    by (simp add: ex_affiliate_by_id ex_commission_fields u no_write_error_def ex_env_fields)
qed

text \<open>
  The claim as the specification words it has the affiliate document unchanged. Every
  call saves, and every save stamps \<^verbatim>\<open>lastActivityAt\<close>: on the example document, last
  active at 900, paying the pending commission 13 or approving the approved commission
  12 at 1001 returns a document that differs from the one it was given.
\<close>

theorem invalid_transition_counterexample:
  "by_id c_id (commissions ex_affiliate) 13 = Some (ex_commission 13 12 Pending)
   \<and> c_status (ex_commission 13 12 Pending) \<noteq> Approved
   \<and> lastActivityAt ex_affiliate = Some 900
   \<and> lastActivityAt (payCommission ex_env ex_affiliate 13 ex_payment) = Some 1001
   \<and> payCommission ex_env ex_affiliate 13 ex_payment \<noteq> ex_affiliate
   \<and> by_id c_id (commissions ex_affiliate) 12 = Some (ex_commission 12 8 Approved)
   \<and> c_status (ex_commission 12 8 Approved) \<noteq> Pending
   \<and> approveCommission ex_env ex_affiliate 12 9 \<noteq> ex_affiliate"
proof -
  have p: "lastActivityAt (payCommission ex_env ex_affiliate 13 ex_payment) = Some 1001"
    by (simp add: payCommission_def ex_affiliate_by_id ex_commission_fields save_def pre_save_def
          Let_def ex_env_fields)
  have q: "lastActivityAt (approveCommission ex_env ex_affiliate 12 9) = Some 1001"
    by (simp add: approveCommission_def ex_affiliate_by_id ex_commission_fields save_def
          pre_save_def Let_def ex_env_fields)
  have n: "lastActivityAt ex_affiliate = Some 900"
    by (simp add: ex_affiliate_def)
  have "payCommission ex_env ex_affiliate 13 ex_payment \<noteq> ex_affiliate"
    using p n by auto
  moreover have "approveCommission ex_env ex_affiliate 12 9 \<noteq> ex_affiliate"
    using q n by auto
  ultimately show ?thesis
    using p n by (simp add: ex_affiliate_by_id ex_commission_fields)
qed

subsection \<open>Customer status\<close>

text \<open>
  Claim C9. The handler accepts exactly \<^verbatim>\<open>active\<close>, \<^verbatim>\<open>inactive\<close> and \<^verbatim>\<open>suspended\<close>.
  For any other body status, \<^verbatim>\<open>pending\<close> of the schema's enum included, it answers 400
  with \<^verbatim>\<open>Invalid status\<close> and the collection is unchanged. For an accepted value it
  answers 200, the status of the customer with the requested id is the requested value
  afterwards, nothing else of that document changes, and no other document changes.
\<close>

theorem put_customer_status_accepts:
  "(status \<notin> {Some ''active'', Some ''inactive'', Some ''suspended''} \<longrightarrow>
      put_customer_status db reqId status =
        (\<lparr>res_status = 400, res_success = None, res_message = None,
          res_error = Some ''Invalid status'', res_data = None\<rparr>, db))
   \<and> put_customer_status db reqId (Some ''pending'') =
        (\<lparr>res_status = 400, res_success = None, res_message = None,
          res_error = Some ''Invalid status'', res_data = None\<rparr>, db)
   \<and> ''pending'' \<in> set user_statuses
   \<and> (s \<in> {''active'', ''inactive'', ''suspended''} \<longrightarrow>
        res_status (fst (put_customer_status db reqId (Some s))) = 200
      \<and> snd (put_customer_status db reqId (Some s)) =
          update_id u_id reqId (\<lambda>u. u\<lparr>u_status := s\<rparr>) db
      \<and> (\<forall>u. by_id u_id db reqId = Some u \<longrightarrow>
            by_id u_id (snd (put_customer_status db reqId (Some s))) reqId = Some (u\<lparr>u_status := s\<rparr>)
          \<and> res_data (fst (put_customer_status db reqId (Some s))) =
              Some (Some (without_password (u\<lparr>u_status := s\<rparr>))))
      \<and> (\<forall>j. j \<noteq> reqId \<longrightarrow>
            by_id u_id (snd (put_customer_status db reqId (Some s))) j = by_id u_id db j))"
proof -
  have other: "j \<noteq> i \<Longrightarrow>
      by_id u_id (update_id u_id i (\<lambda>u. u\<lparr>u_status := s\<rparr>) xs) j = by_id u_id xs j"
    for i j and xs :: "user list"
    by (induction xs) (auto simp: by_id_def)
  have same: "by_id u_id xs i = Some u \<Longrightarrow>
      by_id u_id (update_id u_id i (\<lambda>u. u\<lparr>u_status := s\<rparr>) xs) i = Some (u\<lparr>u_status := s\<rparr>)"
    for i u and xs :: "user list"
    by (rule by_id_update_id) (auto dest: by_id_Some_key)
  have bad: "status \<notin> {Some ''active'', Some ''inactive'', Some ''suspended''} \<Longrightarrow>
      put_customer_status db reqId status =
        (\<lparr>res_status = 400, res_success = None, res_message = None,
          res_error = Some ''Invalid status'', res_data = None\<rparr>, db)"
    by (cases status) (auto simp: put_customer_status_def)
  have pend: "put_customer_status db reqId (Some ''pending'') =
        (\<lparr>res_status = 400, res_success = None, res_message = None,
          res_error = Some ''Invalid status'', res_data = None\<rparr>, db)"
    by (simp add: put_customer_status_def)
  have good: "s \<in> {''active'', ''inactive'', ''suspended''} \<Longrightarrow>
      put_customer_status db reqId (Some s) =
        (\<lparr>res_status = 200, res_success = None,
          res_message = Some (''Customer status updated to '' @ s), res_error = None,
          res_data = Some (map_option without_password
            (by_id u_id (update_id u_id reqId (\<lambda>u. u\<lparr>u_status := s\<rparr>) db) reqId))\<rparr>,
         update_id u_id reqId (\<lambda>u. u\<lparr>u_status := s\<rparr>) db)"
    by (auto simp: put_customer_status_def Let_def)
  show ?thesis
    using bad pend good same other
    by (simp add: user_statuses_def)
qed

theorem put_customer_status_accepts_witness:
  "Some ''archived'' \<notin> {Some ''active'', Some ''inactive'', Some ''suspended''}
   \<and> put_customer_status ex_users 2 (Some ''archived'') =
        (\<lparr>res_status = 400, res_success = None, res_message = None,
          res_error = Some ''Invalid status'', res_data = None\<rparr>, ex_users)
   \<and> ''suspended'' \<in> {''active'', ''inactive'', ''suspended''}
   \<and> by_id u_id ex_users 2 = Some (ex_user 2 ''kim@x.io'' ''customer'' ''active'')
   \<and> by_id u_id (snd (put_customer_status ex_users 2 (Some ''suspended''))) 2 =
        Some (ex_user 2 ''kim@x.io'' ''customer'' ''suspended'')
   \<and> by_id u_id (snd (put_customer_status ex_users 2 (Some ''suspended''))) 3 =
        Some (ex_user 3 ''sam@x.io'' ''support'' ''active'')"
proof -
  have f: "by_id u_id ex_users 2 = Some (ex_user 2 ''kim@x.io'' ''customer'' ''active'')"
    "by_id u_id ex_users 3 = Some (ex_user 3 ''sam@x.io'' ''support'' ''active'')"
    by (simp_all add: ex_users_def ex_user_def by_id_def)
  have g: "(ex_user 2 ''kim@x.io'' ''customer'' ''active'')\<lparr>u_status := ''suspended''\<rparr> =
      ex_user 2 ''kim@x.io'' ''customer'' ''suspended''"
    by (simp add: ex_user_def)
  show ?thesis
    using f g put_customer_status_accepts[of "Some ''archived''" ex_users 2 "''suspended''"]
    by (simp add: ex_users_def ex_user_def by_id_def)
qed

subsection \<open>Duplicate emails\<close>

lemma save_new_user_fresh:
  assumes "save_new_user e db u = Inr saved"
  shows "\<forall>v \<in> set db. u_email v \<noteq> u_email saved"
  using assms
  by (auto simp: save_new_user_def Let_def list_ex_iff split: if_splits)

lemma new_Affiliate_rejected: "save_new_affiliate e db (new_Affiliate e' name email tier rate status) =
    Inl ''Affiliate validation failed''"
  by (simp add: save_new_affiliate_def validate_affiliate_def new_Affiliate_def)

lemma Active_rejected: "save_new_user e db (new_User e' name email password role position ''Active''
    business perms) = Inl ''User validation failed''"
  by (simp add: save_new_user_def validate_user_def new_User_def user_statuses_def)

text \<open>
  Claim C8, as the code has it. \<^verbatim>\<open>POST /register\<close> with an email whose lower case is
  the email of an existing user, and \<^verbatim>\<open>POST /affiliates\<close> with an email whose trimmed
  lower case is that of an existing affiliate, answer 409 with the conflict message and
  leave the collection as it was. \<^verbatim>\<open>POST /create-user\<close> does so when the request reaches
  the check: the requester is a main administrator, name, email, password and role are
  present and the role is valid; whatever it answers, it leaves the collection as it was
  when a user with the lower-cased email exists. When \<^verbatim>\<open>POST /create-user\<close> changes the
  collection it appends one user, and no user stored before has the email of the new
  one. \<^verbatim>\<open>POST /register\<close> and \<^verbatim>\<open>POST /affiliates\<close> leave their collection as it was in
  every case: where they find no conflict, the save is rejected by the validators of the
  schema (the status \<^verbatim>\<open>Active\<close> is not in the enum; \<^verbatim>\<open>affiliateId\<close> and
  \<^verbatim>\<open>referralCode\<close> are required and still empty).
\<close>

theorem duplicate_email_conflict:
  "(findOne_email u_email users (cast_user_email (rb_email rb)) = Some u \<longrightarrow>
      register ue users rb = (message_response 409 ''Email already exists'', users))
   \<and> (by_id u_id users requesterId = Some r \<and> u_role r = ''main_admin''
        \<and> cu_name cb \<noteq> [] \<and> cu_email cb \<noteq> [] \<and> cu_password cb \<noteq> [] \<and> cu_role cb \<noteq> []
        \<and> toLowerCase (cu_role cb) \<in> set validRoles
        \<and> findOne_email u_email users (cast_user_email (toLowerCase (cu_email cb))) = Some u \<longrightarrow>
      create_user ue users requesterId cb =
        (message_response 409 ''A user with this email already exists.'', users))
   \<and> (findOne_email u_email users (cast_user_email (toLowerCase (cu_email cb))) = Some u \<longrightarrow>
      snd (create_user ue users requesterId cb) = users)
   \<and> (findOne_email a_email affiliates (cast_affiliate_email (toLowerCase (ca_email ab))) = Some x \<longrightarrow>
      create_affiliate e affiliates ab =
        (\<lparr>res_status = 409, res_success = Some False,
          res_message = Some ''Affiliate with this email already exists'',
          res_error = None, res_data = None\<rparr>, affiliates))
   \<and> (snd (create_user ue users requesterId cb) \<noteq> users \<longrightarrow>
        findOne_email u_email users (cast_user_email (toLowerCase (cu_email cb))) = None
      \<and> (\<exists>new. snd (create_user ue users requesterId cb) = users @ [new]
             \<and> (\<forall>v \<in> set users. u_email v \<noteq> u_email new)))
   \<and> snd (register ue users rb) = users
   \<and> snd (create_affiliate e affiliates ab) = affiliates"
proof -
  have reg: "findOne_email u_email users (cast_user_email (rb_email rb)) = Some u \<Longrightarrow>
      register ue users rb = (message_response 409 ''Email already exists'', users)"
    by (simp add: register_def message_response_def)
  have cu: "by_id u_id users requesterId = Some r \<Longrightarrow> u_role r = ''main_admin'' \<Longrightarrow>
      cu_name cb \<noteq> [] \<Longrightarrow> cu_email cb \<noteq> [] \<Longrightarrow> cu_password cb \<noteq> [] \<Longrightarrow> cu_role cb \<noteq> [] \<Longrightarrow>
      toLowerCase (cu_role cb) \<in> set validRoles \<Longrightarrow>
      findOne_email u_email users (cast_user_email (toLowerCase (cu_email cb))) = Some u \<Longrightarrow>
      create_user ue users requesterId cb =
        (message_response 409 ''A user with this email already exists.'', users)"
    by (simp add: create_user_def)
  have cu_same: "findOne_email u_email users (cast_user_email (toLowerCase (cu_email cb))) = Some u \<Longrightarrow>
      snd (create_user ue users requesterId cb) = users"
    by (simp add: create_user_def split: option.splits)
  have af: "findOne_email a_email affiliates (cast_affiliate_email (toLowerCase (ca_email ab))) = Some x \<Longrightarrow>
      create_affiliate e affiliates ab =
        (\<lparr>res_status = 409, res_success = Some False,
          res_message = Some ''Affiliate with this email already exists'',
          res_error = None, res_data = None\<rparr>, affiliates)"
    by (simp add: create_affiliate_def)
  have cu_new: "snd (create_user ue users requesterId cb) = users \<or>
        findOne_email u_email users (cast_user_email (toLowerCase (cu_email cb))) = None
      \<and> (\<exists>new. snd (create_user ue users requesterId cb) = users @ [new]
             \<and> (\<forall>v \<in> set users. u_email v \<noteq> u_email new))"
    by (simp add: create_user_def Let_def save_new_user_fresh split: option.split sum.split)
  have reg_same: "snd (register ue users rb) = users"
    by (simp add: register_def Let_def Active_rejected split: option.split)
  have af_same: "snd (create_affiliate e affiliates ab) = affiliates"
    by (simp add: create_affiliate_def Let_def new_Affiliate_rejected split: option.split)
  show ?thesis
    using reg cu cu_same af cu_new reg_same af_same by blast
qed

theorem duplicate_email_conflict_witness:
  "register ex_user_env ex_users (ex_register_body ''KIM@X.IO'') =
     (message_response 409 ''Email already exists'', ex_users)
   \<and> create_user ex_user_env ex_users 1 (ex_create_body ''Kim@X.io'') =
     (message_response 409 ''A user with this email already exists.'', ex_users)
   \<and> create_affiliate ex_env [ex_fresh, ex_affiliate] (ex_affiliate_body '' ANN@x.io '') =
     (\<lparr>res_status = 409, res_success = Some False,
       res_message = Some ''Affiliate with this email already exists'',
       res_error = None, res_data = None\<rparr>, [ex_fresh, ex_affiliate])
   \<and> snd (create_user ex_user_env ex_users 1 (ex_create_body ''Lee@X.io'')) =
       ex_users @ [\<lparr>u_id = 4, u_name = ''Lee'', u_email = ''lee@x.io'', u_password = ''$2b$10$wp'',
          u_role = ''support'', u_position = ''Member'', u_status = ''active'',
          u_business = None, u_adminPermissions = no_permissions, u_createdAt = 3000\<rparr>]
   \<and> res_status (fst (create_user ex_user_env ex_users 1 (ex_create_body ''Lee@X.io''))) = 201
   \<and> ''lee@x.io'' \<notin> set (map u_email ex_users)
   \<and> findOne_email u_email ex_users (cast_user_email (toLowerCase ''Lee@X.io'')) = None
   \<and> fst (register ex_user_env ex_users (ex_register_body ''lee@x.io'')) =
       \<lparr>res_status = 500, res_success = None, res_message = Some ''Registration failed'',
        res_error = Some ''User validation failed'', res_data = None\<rparr>
   \<and> fst (create_affiliate ex_env [ex_fresh, ex_affiliate] (ex_affiliate_body ''AL@x.io'')) =
       \<lparr>res_status = 500, res_success = Some False,
        res_message = Some ''Error creating affiliate'',
        res_error = Some ''Affiliate validation failed'', res_data = None\<rparr>"
proof -
  have h1: "findOne_email u_email ex_users (cast_user_email (rb_email (ex_register_body ''KIM@X.IO''))) =
      Some (ex_user 2 ''kim@x.io'' ''customer'' ''active'')"
    by code_simp
  have h2: "by_id u_id ex_users 1 = Some (ex_user 1 ''root@x.io'' ''main_admin'' ''active'')"
    "u_role (ex_user 1 ''root@x.io'' ''main_admin'' ''active'') = ''main_admin''"
    "cu_name (ex_create_body ''Kim@X.io'') \<noteq> []" "cu_email (ex_create_body ''Kim@X.io'') \<noteq> []"
    "cu_password (ex_create_body ''Kim@X.io'') \<noteq> []" "cu_role (ex_create_body ''Kim@X.io'') \<noteq> []"
    "toLowerCase (cu_role (ex_create_body ''Kim@X.io'')) \<in> set validRoles"
    "findOne_email u_email ex_users
       (cast_user_email (toLowerCase (cu_email (ex_create_body ''Kim@X.io'')))) =
      Some (ex_user 2 ''kim@x.io'' ''customer'' ''active'')"
    by code_simp+
  have h3: "findOne_email a_email [ex_fresh, ex_affiliate]
      (cast_affiliate_email (toLowerCase (ca_email (ex_affiliate_body '' ANN@x.io '')))) =
      Some ex_affiliate"
    by code_simp
  have n: "snd (create_user ex_user_env ex_users 1 (ex_create_body ''Lee@X.io'')) =
       ex_users @ [\<lparr>u_id = 4, u_name = ''Lee'', u_email = ''lee@x.io'', u_password = ''$2b$10$wp'',
          u_role = ''support'', u_position = ''Member'', u_status = ''active'',
          u_business = None, u_adminPermissions = no_permissions, u_createdAt = 3000\<rparr>]"
    "res_status (fst (create_user ex_user_env ex_users 1 (ex_create_body ''Lee@X.io''))) = 201"
    "cu_email (ex_create_body ''Lee@X.io'') = ''Lee@X.io''"
    "fst (register ex_user_env ex_users (ex_register_body ''lee@x.io'')) =
       \<lparr>res_status = 500, res_success = None, res_message = Some ''Registration failed'',
        res_error = Some ''User validation failed'', res_data = None\<rparr>"
    "fst (create_affiliate ex_env [ex_fresh, ex_affiliate] (ex_affiliate_body ''AL@x.io'')) =
       \<lparr>res_status = 500, res_success = Some False,
        res_message = Some ''Error creating affiliate'',
        res_error = Some ''Affiliate validation failed'', res_data = None\<rparr>"
    by code_simp+
  have m: "snd (create_user ex_user_env ex_users 1 (ex_create_body ''Lee@X.io'')) \<noteq> ex_users"
    using n(1) by simp
  note t1 = duplicate_email_conflict[of ex_users "ex_register_body ''KIM@X.IO''"
        "ex_user 2 ''kim@x.io'' ''customer'' ''active''" ex_user_env 1
        "ex_user 1 ''root@x.io'' ''main_admin'' ''active''" "ex_create_body ''Kim@X.io''"
        "[ex_fresh, ex_affiliate]" "ex_affiliate_body '' ANN@x.io ''" ex_affiliate ex_env]
  note t2 = duplicate_email_conflict[of ex_users "ex_register_body ''lee@x.io''"
        "ex_user 2 ''kim@x.io'' ''customer'' ''active''" ex_user_env 1
        "ex_user 1 ''root@x.io'' ''main_admin'' ''active''" "ex_create_body ''Lee@X.io''"
        "[ex_fresh, ex_affiliate]" "ex_affiliate_body ''AL@x.io''" ex_affiliate ex_env]
  from t2 m have "\<exists>new. snd (create_user ex_user_env ex_users 1 (ex_create_body ''Lee@X.io'')) =
        ex_users @ [new] \<and> (\<forall>v \<in> set ex_users. u_email v \<noteq> u_email new)"
    by blast
  then obtain new where a: "snd (create_user ex_user_env ex_users 1 (ex_create_body ''Lee@X.io'')) =
        ex_users @ [new]" and b: "\<forall>v \<in> set ex_users. u_email v \<noteq> u_email new"
    by blast
  from a n(1) have "u_email new = ''lee@x.io''"
    by simp
  with b have fresh: "''lee@x.io'' \<notin> set (map u_email ex_users)"
    by auto
  from t2 m have "findOne_email u_email ex_users
      (cast_user_email (toLowerCase (cu_email (ex_create_body ''Lee@X.io'')))) = None"
    by blast
  then have none: "findOne_email u_email ex_users (cast_user_email (toLowerCase ''Lee@X.io'')) = None"
    by (simp only: n(3))
  from t1 h1 have r1: "register ex_user_env ex_users (ex_register_body ''KIM@X.IO'') =
     (message_response 409 ''Email already exists'', ex_users)"
    by blast
  from t1 h2 have r2: "create_user ex_user_env ex_users 1 (ex_create_body ''Kim@X.io'') =
     (message_response 409 ''A user with this email already exists.'', ex_users)"
    by blast
  from t1 h3 have r3: "create_affiliate ex_env [ex_fresh, ex_affiliate] (ex_affiliate_body '' ANN@x.io '') =
     (\<lparr>res_status = 409, res_success = Some False,
       res_message = Some ''Affiliate with this email already exists'',
       res_error = None, res_data = None\<rparr>, [ex_fresh, ex_affiliate])"
    by blast
  from r1 r2 r3 n(1) n(2) fresh none n(4) n(5) show ?thesis
    by (intro conjI)
qed

text \<open>
  The claim as the specification words it has 409 for every user-creation request with
  an existing email. A request by a user who is not a main administrator is answered
  403 before the email is looked at.
\<close>

theorem duplicate_email_counterexample:
  "findOne_email u_email ex_users (cu_email (ex_create_body ''kim@x.io'')) =
     Some (ex_user 2 ''kim@x.io'' ''customer'' ''active'')
   \<and> create_user ex_user_env ex_users 3 (ex_create_body ''kim@x.io'') =
       (message_response 403 ''Only main administrators can create new users.'', ex_users)
   \<and> res_status (fst (create_user ex_user_env ex_users 3 (ex_create_body ''kim@x.io''))) \<noteq> 409"
  by (simp add: create_user_def findOne_email_def by_id_def ex_users_def ex_user_def
        ex_create_body_def message_response_def)

subsection \<open>Pagination\<close>

lemma exec_query_slice:
  assumes "1 \<le> page" and "1 \<le> limit"
  shows "exec_query found ((page - 1) * limit) limit = Inr (page_slice found page limit)"
proof -
  have "0 \<le> (page - 1) * limit"
    using assms by (simp add: mult_nonneg_nonneg)
  then have "\<not> (page - 1) * limit < 0"
    by simp
  then show ?thesis
    using assms by (simp add: exec_query_def page_slice_def Let_def)
qed

lemma ceil_div_pos:
  "1 \<le> limit \<Longrightarrow> ceil_div totalItems limit = Some \<lceil>real totalItems / real_of_int limit\<rceil>"
  by (simp add: ceil_div_def)

lemma length_page_slice: "0 \<le> limit \<Longrightarrow> int (length (page_slice found page limit)) \<le> limit"
  by (simp add: page_slice_def)

text \<open>
  Claim C7, as the code has it. With \<open>page \<ge> 1\<close> and \<open>limit \<ge> 1\<close>, where an absent
  parameter stands for its default (page 1; limit 50 for affiliates and files, 20 for
  customers) and, in the file list only, a parameter of 0 stands for its default as
  well, each of the three list endpoints answers 200 with
  \<open>totalPages = \<lceil>total / limit\<rceil>\<close> (\<^verbatim>\<open>pagination.pages\<close> for files) and with the slice
  of the sorted result set that starts at offset \<open>(page - 1) * limit\<close> and has at most
  \<open>limit\<close> items (customers are sent without their password).
\<close>

theorem pagination_slice:
  "(1 \<le> or_absent (aq_page aq) 1 \<and> 1 \<le> or_absent (aq_limit aq) 50 \<longrightarrow>
      list_affiliates find_affiliates aq =
        \<lparr>res_status = 200, res_success = Some True, res_message = None, res_error = None,
         res_data = Some \<lparr>
           ap_affiliates =
             page_slice (find_affiliates (affiliates_filter aq) (affiliates_sort aq))
               (or_absent (aq_page aq) 1) (or_absent (aq_limit aq) 50),
           ap_currentPage = or_absent (aq_page aq) 1,
           ap_totalPages =
             Some \<lceil>real (length (find_affiliates (affiliates_filter aq) (affiliates_sort aq)))
                    / real_of_int (or_absent (aq_limit aq) 50)\<rceil>,
           ap_totalItems = length (find_affiliates (affiliates_filter aq) (affiliates_sort aq)),
           ap_itemsPerPage = or_absent (aq_limit aq) 50,
           ap_stats = summary (find_affiliates (affiliates_filter aq) (affiliates_sort aq))\<rparr>\<rparr>
    \<and> int (length (page_slice (find_affiliates (affiliates_filter aq) (affiliates_sort aq))
               (or_absent (aq_page aq) 1) (or_absent (aq_limit aq) 50)))
        \<le> or_absent (aq_limit aq) 50)
   \<and> (1 \<le> or_absent (cq_page cq) 1 \<and> 1 \<le> or_absent (cq_limit cq) 20 \<longrightarrow>
      list_customers find_customers cq =
        \<lparr>res_status = 200, res_success = None, res_message = None, res_error = None,
         res_data = Some \<lparr>
           cp_customers = map without_password
             (page_slice (find_customers (customers_filter cq))
               (or_absent (cq_page cq) 1) (or_absent (cq_limit cq) 20)),
           cp_currentPage = or_absent (cq_page cq) 1,
           cp_totalPages =
             Some \<lceil>real (length (find_customers (customers_filter cq)))
                    / real_of_int (or_absent (cq_limit cq) 20)\<rceil>,
           cp_totalCustomers = length (find_customers (customers_filter cq))\<rparr>\<rparr>
    \<and> int (length (page_slice (find_customers (customers_filter cq))
               (or_absent (cq_page cq) 1) (or_absent (cq_limit cq) 20)))
        \<le> or_absent (cq_limit cq) 20)
   \<and> (1 \<le> or_default (fq_page fq) 1 \<and> 1 \<le> or_default (fq_limit fq) 50 \<longrightarrow>
      list_files find_files userId categoryParam fq =
        \<lparr>res_status = 200, res_success = None, res_message = None, res_error = None,
         res_data = Some \<lparr>
           fp_files =
             page_slice (find_files (files_filter userId (truthy categoryParam)))
               (or_default (fq_page fq) 1) (or_default (fq_limit fq) 50),
           fp_current = or_default (fq_page fq) 1,
           fp_pages =
             Some \<lceil>real (length (find_files (files_filter userId (truthy categoryParam))))
                    / real_of_int (or_default (fq_limit fq) 50)\<rceil>,
           fp_total = length (find_files (files_filter userId (truthy categoryParam))),
           fp_limit = or_default (fq_limit fq) 50,
           fp_category = or_absent (truthy categoryParam) ''all''\<rparr>\<rparr>
    \<and> int (length (page_slice (find_files (files_filter userId (truthy categoryParam)))
               (or_default (fq_page fq) 1) (or_default (fq_limit fq) 50)))
        \<le> or_default (fq_limit fq) 50)"
  by (simp add: list_affiliates_def list_customers_def list_files_def Let_def
        exec_query_slice ceil_div_pos length_page_slice)

theorem pagination_slice_witness:
  "res_data (list_files ex_files 2 None \<lparr>fq_page = Some 2, fq_limit = Some 2\<rparr>) =
      Some \<lparr>fp_files = [''c.pdf'', ''b.pdf''], fp_current = 2, fp_pages = Some 3,
        fp_total = 5, fp_limit = 2, fp_category = ''all''\<rparr>
   \<and> res_data (list_files ex_files 2 (Some ''documents'') \<lparr>fq_page = None, fq_limit = Some 0\<rparr>) =
      Some \<lparr>fp_files = [''e.pdf'', ''d.pdf'', ''c.pdf'', ''b.pdf'', ''a.pdf''], fp_current = 1, fp_pages = Some 1,
        fp_total = 5, fp_limit = 50, fp_category = ''documents''\<rparr>
   \<and> map_option ap_affiliates (res_data (list_affiliates ex_find_affiliates
        (ex_affiliate_query (Some 2) (Some 1)))) = Some [ex_affiliate]
   \<and> map_option ap_totalPages (res_data (list_affiliates ex_find_affiliates
        (ex_affiliate_query (Some 2) (Some 1)))) = Some (Some 2)
   \<and> map_option cp_customers (res_data (list_customers ex_find_customers
        \<lparr>cq_page = None, cq_limit = None, cq_search = None, cq_status = None\<rparr>)) =
      Some [without_password (ex_user 2 ''kim@x.io'' ''customer'' ''active'')]
   \<and> map_option cp_totalPages (res_data (list_customers ex_find_customers
        \<lparr>cq_page = None, cq_limit = None, cq_search = None, cq_status = None\<rparr>)) =
      Some (Some 1)"
proof -
  have f: "ex_files (files_filter 2 x) = [''e.pdf'', ''d.pdf'', ''c.pdf'', ''b.pdf'', ''a.pdf'']" for x
    by (simp add: ex_files_def files_filter_def)
  have c: "ex_find_customers (customers_filter q) =
      [ex_user 2 ''kim@x.io'' ''customer'' ''active'']" for q
    by (simp add: ex_find_customers_def customers_filter_def ex_users_def ex_user_def)
  have d: "or_absent (Some v) w = v" "or_absent None w = w"
    "or_default (Some 2) k = 2" "or_default (Some 0) k = k" "or_default None k = k"
    for v w :: "'b" and k :: int
    by (simp_all add: or_absent_def or_default_def)
  have t: "truthy None = None" "truthy (Some ''documents'') = Some ''documents''"
    by (simp_all add: truthy_def)
  have k: "\<lceil>(1::real) / 10\<rceil> = 1" "\<lceil>(1::real) / 20\<rceil> = 1"
    by (rule ceiling_unique; simp)+
  show ?thesis
    using pagination_slice[of "ex_affiliate_query (Some 2) (Some 1)" ex_find_affiliates
        "\<lparr>cq_page = None, cq_limit = None, cq_search = None, cq_status = None\<rparr>"
        ex_find_customers "\<lparr>fq_page = Some 2, fq_limit = Some 2\<rparr>" ex_files 2 None]
      pagination_slice[of "ex_affiliate_query (Some 2) (Some 1)" ex_find_affiliates
        "\<lparr>cq_page = None, cq_limit = None, cq_search = None, cq_status = None\<rparr>"
        ex_find_customers "\<lparr>fq_page = None, fq_limit = Some 0\<rparr>" ex_files 2
        "Some ''documents''"]
    by (simp add: f c d t k page_slice_def ex_affiliate_query_def ex_find_affiliates_def)
qed

text \<open>
  The claim as the specification words it holds for every \<^verbatim>\<open>page\<close> and \<^verbatim>\<open>limit\<close> a
  request can carry. The file list replaces a \<^verbatim>\<open>limit\<close> of 0 by 50: of five files all
  five are returned, where the slice of at most \<open>limit = 0\<close> items is empty. The affiliate
  list hands a \<^verbatim>\<open>limit\<close> of 0 to the database, which then applies no limit, and
  reports no finite \<^verbatim>\<open>totalPages\<close>.
\<close>

theorem pagination_counterexample:
  "map_option fp_files
      (res_data (list_files ex_files 2 None \<lparr>fq_page = Some 1, fq_limit = Some 0\<rparr>)) =
      Some ([''e.pdf'', ''d.pdf'', ''c.pdf'', ''b.pdf'', ''a.pdf''])
   \<and> page_slice (ex_files (files_filter 2 None)) 1 0 = []
   \<and> \<not> int (length ([''e.pdf'', ''d.pdf'', ''c.pdf'', ''b.pdf'', ''a.pdf''])) \<le> 0
   \<and> map_option ap_affiliates
        (res_data (list_affiliates ex_find_affiliates (ex_affiliate_query (Some 1) (Some 0)))) =
      Some [ex_fresh, ex_affiliate]
   \<and> map_option ap_totalPages
        (res_data (list_affiliates ex_find_affiliates (ex_affiliate_query (Some 1) (Some 0)))) =
      Some None"
  by (simp add: list_files_def list_affiliates_def Let_def exec_query_def ceil_div_def
        or_default_def or_absent_def truthy_def files_filter_def ex_files_def page_slice_def
        ex_affiliate_query_def ex_find_affiliates_def)

end
